theory Spec2Isabelle
  imports Complex_Main "HOL-Library.Sublist" "HOL-Library.AList" "HOL-Library.Log_Nat"
begin

section \<open>JavaScript strings\<close>

text \<open>
  A JavaScript string is a sequence of UTF-16 code units; \<open>length\<close>, \<open>slice\<close>,
  \<open>includes\<close> and the regular expressions of the sources all count code units. A code
  unit is modelled by its number, so the currency signs and the Unicode white space the
  sources name are ordinary elements. String literals of the sources are ASCII and are
  written \<open>str ''...''\<close>.

  \<open>lower_unit\<close> is the case folding of the \<open>i\<close> flag on the ASCII letters, the only
  letters in the patterns of the sources: without the \<open>u\<close> flag no code unit beyond ASCII
  matches an ASCII letter.
\<close>

type_synonym jstring = "int list"

definition str :: "string \<Rightarrow> jstring" where
  "str = map of_char"

definition lower_unit :: "int \<Rightarrow> int" where
  "lower_unit c = (if 65 \<le> c \<and> c \<le> 90 then c + 32 else c)"

text \<open>
  \<open>s.toLowerCase()\<close> is the default case conversion of Unicode, as ECMAScript prescribes
  it. The text is read as code points (a high surrogate followed by a low one is one code
  point, any other surrogate stands for itself); each code point is replaced by its
  lower-case mapping, \<open>U+0130\<close> by \<open>i\<close> and \<open>U+0307\<close>, and a capital sigma \<open>U+03A3\<close> by
  the final sigma \<open>U+03C2\<close> when a cased letter stands before it and none after it,
  case-ignorable code points not counting. The tables belong to the runtime: the simple
  lower-case mappings beyond ASCII, as \<open>(first, last, step, offset)\<close>, and the properties
  \<open>Case_Ignorable\<close> and \<open>Cased\<close> as ranges, from the Unicode Character Database 14.0.
\<close>

definition lower_table :: "(int \<times> int \<times> int \<times> int) list" where
  "lower_table =
    [(192, 214, 1, 32), (216, 222, 1, 32), (256, 302, 2, 1), (306, 310, 2, 1),
     (313, 327, 2, 1), (330, 374, 2, 1), (376, 376, 1, -121), (377, 381, 2, 1),
     (385, 385, 1, 210), (386, 388, 2, 1), (390, 390, 1, 206), (391, 391, 1, 1),
     (393, 394, 1, 205), (395, 395, 1, 1), (398, 398, 1, 79), (399, 399, 1, 202),
     (400, 400, 1, 203), (401, 401, 1, 1), (403, 403, 1, 205), (404, 404, 1, 207),
     (406, 406, 1, 211), (407, 407, 1, 209), (408, 408, 1, 1), (412, 412, 1, 211),
     (413, 413, 1, 213), (415, 415, 1, 214), (416, 420, 2, 1), (422, 422, 1, 218),
     (423, 423, 1, 1), (425, 425, 1, 218), (428, 428, 1, 1), (430, 430, 1, 218),
     (431, 431, 1, 1), (433, 434, 1, 217), (435, 437, 2, 1), (439, 439, 1, 219),
     (440, 440, 1, 1), (444, 444, 1, 1), (452, 452, 1, 2), (453, 453, 1, 1),
     (455, 455, 1, 2), (456, 456, 1, 1), (458, 458, 1, 2), (459, 475, 2, 1),
     (478, 494, 2, 1), (497, 497, 1, 2), (498, 500, 2, 1), (502, 502, 1, -97),
     (503, 503, 1, -56), (504, 542, 2, 1), (544, 544, 1, -130), (546, 562, 2, 1),
     (570, 570, 1, 10795), (571, 571, 1, 1), (573, 573, 1, -163), (574, 574, 1, 10792),
     (577, 577, 1, 1), (579, 579, 1, -195), (580, 580, 1, 69), (581, 581, 1, 71),
     (582, 590, 2, 1), (880, 882, 2, 1), (886, 886, 1, 1), (895, 895, 1, 116),
     (902, 902, 1, 38), (904, 906, 1, 37), (908, 908, 1, 64), (910, 911, 1, 63),
     (913, 929, 1, 32), (931, 939, 1, 32), (975, 975, 1, 8), (984, 1006, 2, 1),
     (1012, 1012, 1, -60), (1015, 1015, 1, 1), (1017, 1017, 1, -7), (1018, 1018, 1, 1),
     (1021, 1023, 1, -130), (1024, 1039, 1, 80), (1040, 1071, 1, 32), (1120, 1152, 2, 1),
     (1162, 1214, 2, 1), (1216, 1216, 1, 15), (1217, 1229, 2, 1), (1232, 1326, 2, 1),
     (1329, 1366, 1, 48), (4256, 4293, 1, 7264), (4295, 4295, 1, 7264), (4301, 4301, 1, 7264),
     (5024, 5103, 1, 38864), (5104, 5109, 1, 8), (7312, 7354, 1, -3008), (7357, 7359, 1, -3008),
     (7680, 7828, 2, 1), (7838, 7838, 1, -7615), (7840, 7934, 2, 1), (7944, 7951, 1, -8),
     (7960, 7965, 1, -8), (7976, 7983, 1, -8), (7992, 7999, 1, -8), (8008, 8013, 1, -8),
     (8025, 8031, 2, -8), (8040, 8047, 1, -8), (8072, 8079, 1, -8), (8088, 8095, 1, -8),
     (8104, 8111, 1, -8), (8120, 8121, 1, -8), (8122, 8123, 1, -74), (8124, 8124, 1, -9),
     (8136, 8139, 1, -86), (8140, 8140, 1, -9), (8152, 8153, 1, -8), (8154, 8155, 1, -100),
     (8168, 8169, 1, -8), (8170, 8171, 1, -112), (8172, 8172, 1, -7), (8184, 8185, 1, -128),
     (8186, 8187, 1, -126), (8188, 8188, 1, -9), (8486, 8486, 1, -7517), (8490, 8490, 1, -8383),
     (8491, 8491, 1, -8262), (8498, 8498, 1, 28), (8544, 8559, 1, 16), (8579, 8579, 1, 1),
     (9398, 9423, 1, 26), (11264, 11311, 1, 48), (11360, 11360, 1, 1), (11362, 11362, 1, -10743),
     (11363, 11363, 1, -3814), (11364, 11364, 1, -10727), (11367, 11371, 2, 1), (11373, 11373, 1, -10780),
     (11374, 11374, 1, -10749), (11375, 11375, 1, -10783), (11376, 11376, 1, -10782), (11378, 11378, 1, 1),
     (11381, 11381, 1, 1), (11390, 11391, 1, -10815), (11392, 11490, 2, 1), (11499, 11501, 2, 1),
     (11506, 11506, 1, 1), (42560, 42604, 2, 1), (42624, 42650, 2, 1), (42786, 42798, 2, 1),
     (42802, 42862, 2, 1), (42873, 42875, 2, 1), (42877, 42877, 1, -35332), (42878, 42886, 2, 1),
     (42891, 42891, 1, 1), (42893, 42893, 1, -42280), (42896, 42898, 2, 1), (42902, 42920, 2, 1),
     (42922, 42922, 1, -42308), (42923, 42923, 1, -42319), (42924, 42924, 1, -42315), (42925, 42925, 1, -42305),
     (42926, 42926, 1, -42308), (42928, 42928, 1, -42258), (42929, 42929, 1, -42282), (42930, 42930, 1, -42261),
     (42931, 42931, 1, 928), (42932, 42946, 2, 1), (42948, 42948, 1, -48), (42949, 42949, 1, -42307),
     (42950, 42950, 1, -35384), (42951, 42953, 2, 1), (42960, 42960, 1, 1), (42966, 42968, 2, 1),
     (42997, 42997, 1, 1), (65313, 65338, 1, 32), (66560, 66599, 1, 40), (66736, 66771, 1, 40),
     (66928, 66938, 1, 39), (66940, 66954, 1, 39), (66956, 66962, 1, 39), (66964, 66965, 1, 39),
     (68736, 68786, 1, 64), (71840, 71871, 1, 32), (93760, 93791, 1, 32), (125184, 125217, 1, 34)]"

definition case_ignorable_table :: "(int \<times> int) list" where
  "case_ignorable_table =
    [(39, 39), (46, 46), (58, 58), (94, 94), (96, 96), (168, 168),
     (173, 173), (175, 175), (180, 180), (183, 184), (688, 879), (884, 885),
     (890, 890), (900, 901), (903, 903), (1155, 1161), (1369, 1369), (1375, 1375),
     (1425, 1469), (1471, 1471), (1473, 1474), (1476, 1477), (1479, 1479), (1524, 1524),
     (1536, 1541), (1552, 1562), (1564, 1564), (1600, 1600), (1611, 1631), (1648, 1648),
     (1750, 1757), (1759, 1768), (1770, 1773), (1807, 1807), (1809, 1809), (1840, 1866),
     (1958, 1968), (2027, 2037), (2042, 2042), (2045, 2045), (2070, 2093), (2137, 2139),
     (2184, 2184), (2192, 2193), (2200, 2207), (2249, 2306), (2362, 2362), (2364, 2364),
     (2369, 2376), (2381, 2381), (2385, 2391), (2402, 2403), (2417, 2417), (2433, 2433),
     (2492, 2492), (2497, 2500), (2509, 2509), (2530, 2531), (2558, 2558), (2561, 2562),
     (2620, 2620), (2625, 2626), (2631, 2632), (2635, 2637), (2641, 2641), (2672, 2673),
     (2677, 2677), (2689, 2690), (2748, 2748), (2753, 2757), (2759, 2760), (2765, 2765),
     (2786, 2787), (2810, 2815), (2817, 2817), (2876, 2876), (2879, 2879), (2881, 2884),
     (2893, 2893), (2901, 2902), (2914, 2915), (2946, 2946), (3008, 3008), (3021, 3021),
     (3072, 3072), (3076, 3076), (3132, 3132), (3134, 3136), (3142, 3144), (3146, 3149),
     (3157, 3158), (3170, 3171), (3201, 3201), (3260, 3260), (3263, 3263), (3270, 3270),
     (3276, 3277), (3298, 3299), (3328, 3329), (3387, 3388), (3393, 3396), (3405, 3405),
     (3426, 3427), (3457, 3457), (3530, 3530), (3538, 3540), (3542, 3542), (3633, 3633),
     (3636, 3642), (3654, 3662), (3761, 3761), (3764, 3772), (3782, 3782), (3784, 3789),
     (3864, 3865), (3893, 3893), (3895, 3895), (3897, 3897), (3953, 3966), (3968, 3972),
     (3974, 3975), (3981, 3991), (3993, 4028), (4038, 4038), (4141, 4144), (4146, 4151),
     (4153, 4154), (4157, 4158), (4184, 4185), (4190, 4192), (4209, 4212), (4226, 4226),
     (4229, 4230), (4237, 4237), (4253, 4253), (4348, 4348), (4957, 4959), (5906, 5908),
     (5938, 5939), (5970, 5971), (6002, 6003), (6068, 6069), (6071, 6077), (6086, 6086),
     (6089, 6099), (6103, 6103), (6109, 6109), (6155, 6159), (6211, 6211), (6277, 6278),
     (6313, 6313), (6432, 6434), (6439, 6440), (6450, 6450), (6457, 6459), (6679, 6680),
     (6683, 6683), (6742, 6742), (6744, 6750), (6752, 6752), (6754, 6754), (6757, 6764),
     (6771, 6780), (6783, 6783), (6823, 6823), (6832, 6862), (6912, 6915), (6964, 6964),
     (6966, 6970), (6972, 6972), (6978, 6978), (7019, 7027), (7040, 7041), (7074, 7077),
     (7080, 7081), (7083, 7085), (7142, 7142), (7144, 7145), (7149, 7149), (7151, 7153),
     (7212, 7219), (7222, 7223), (7288, 7293), (7376, 7378), (7380, 7392), (7394, 7400),
     (7405, 7405), (7412, 7412), (7416, 7417), (7468, 7530), (7544, 7544), (7579, 7679),
     (8125, 8125), (8127, 8129), (8141, 8143), (8157, 8159), (8173, 8175), (8189, 8190),
     (8203, 8207), (8216, 8217), (8228, 8228), (8231, 8231), (8234, 8238), (8288, 8292),
     (8294, 8303), (8305, 8305), (8319, 8319), (8336, 8348), (8400, 8432), (11388, 11389),
     (11503, 11505), (11631, 11631), (11647, 11647), (11744, 11775), (11823, 11823), (12293, 12293),
     (12330, 12333), (12337, 12341), (12347, 12347), (12441, 12446), (12540, 12542), (40981, 40981),
     (42232, 42237), (42508, 42508), (42607, 42610), (42612, 42621), (42623, 42623), (42652, 42655),
     (42736, 42737), (42752, 42785), (42864, 42864), (42888, 42890), (42994, 42996), (43000, 43001),
     (43010, 43010), (43014, 43014), (43019, 43019), (43045, 43046), (43052, 43052), (43204, 43205),
     (43232, 43249), (43263, 43263), (43302, 43309), (43335, 43345), (43392, 43394), (43443, 43443),
     (43446, 43449), (43452, 43453), (43471, 43471), (43493, 43494), (43561, 43566), (43569, 43570),
     (43573, 43574), (43587, 43587), (43596, 43596), (43632, 43632), (43644, 43644), (43696, 43696),
     (43698, 43700), (43703, 43704), (43710, 43711), (43713, 43713), (43741, 43741), (43756, 43757),
     (43763, 43764), (43766, 43766), (43867, 43871), (43881, 43883), (44005, 44005), (44008, 44008),
     (44013, 44013), (64286, 64286), (64434, 64450), (65024, 65039), (65043, 65043), (65056, 65071),
     (65106, 65106), (65109, 65109), (65279, 65279), (65287, 65287), (65294, 65294), (65306, 65306),
     (65342, 65342), (65344, 65344), (65392, 65392), (65438, 65439), (65507, 65507), (65529, 65531),
     (66045, 66045), (66272, 66272), (66422, 66426), (67456, 67461), (67463, 67504), (67506, 67514),
     (68097, 68099), (68101, 68102), (68108, 68111), (68152, 68154), (68159, 68159), (68325, 68326),
     (68900, 68903), (69291, 69292), (69446, 69456), (69506, 69509), (69633, 69633), (69688, 69702),
     (69744, 69744), (69747, 69748), (69759, 69761), (69811, 69814), (69817, 69818), (69821, 69821),
     (69826, 69826), (69837, 69837), (69888, 69890), (69927, 69931), (69933, 69940), (70003, 70003),
     (70016, 70017), (70070, 70078), (70089, 70092), (70095, 70095), (70191, 70193), (70196, 70196),
     (70198, 70199), (70206, 70206), (70367, 70367), (70371, 70378), (70400, 70401), (70459, 70460),
     (70464, 70464), (70502, 70508), (70512, 70516), (70712, 70719), (70722, 70724), (70726, 70726),
     (70750, 70750), (70835, 70840), (70842, 70842), (70847, 70848), (70850, 70851), (71090, 71093),
     (71100, 71101), (71103, 71104), (71132, 71133), (71219, 71226), (71229, 71229), (71231, 71232),
     (71339, 71339), (71341, 71341), (71344, 71349), (71351, 71351), (71453, 71455), (71458, 71461),
     (71463, 71467), (71727, 71735), (71737, 71738), (71995, 71996), (71998, 71998), (72003, 72003),
     (72148, 72151), (72154, 72155), (72160, 72160), (72193, 72202), (72243, 72248), (72251, 72254),
     (72263, 72263), (72273, 72278), (72281, 72283), (72330, 72342), (72344, 72345), (72752, 72758),
     (72760, 72765), (72767, 72767), (72850, 72871), (72874, 72880), (72882, 72883), (72885, 72886),
     (73009, 73014), (73018, 73018), (73020, 73021), (73023, 73029), (73031, 73031), (73104, 73105),
     (73109, 73109), (73111, 73111), (73459, 73460), (78896, 78904), (92912, 92916), (92976, 92982),
     (92992, 92995), (94031, 94031), (94095, 94111), (94176, 94177), (94179, 94180), (110576, 110579),
     (110581, 110587), (110589, 110590), (113821, 113822), (113824, 113827), (118528, 118573), (118576, 118598),
     (119143, 119145), (119155, 119170), (119173, 119179), (119210, 119213), (119362, 119364), (121344, 121398),
     (121403, 121452), (121461, 121461), (121476, 121476), (121499, 121503), (121505, 121519), (122880, 122886),
     (122888, 122904), (122907, 122913), (122915, 122916), (122918, 122922), (123184, 123197), (123566, 123566),
     (123628, 123631), (125136, 125142), (125252, 125259), (127995, 127999), (917505, 917505), (917536, 917631),
     (917760, 917999)]"

definition cased_table :: "(int \<times> int) list" where
  "cased_table =
    [(65, 90), (97, 122), (170, 170), (181, 181), (186, 186), (192, 214),
     (216, 246), (248, 442), (444, 447), (452, 659), (661, 696), (704, 705),
     (736, 740), (837, 837), (880, 883), (886, 887), (890, 893), (895, 895),
     (902, 902), (904, 906), (908, 908), (910, 929), (931, 1013), (1015, 1153),
     (1162, 1327), (1329, 1366), (1376, 1416), (4256, 4293), (4295, 4295), (4301, 4301),
     (4304, 4346), (4349, 4351), (5024, 5109), (5112, 5117), (7296, 7304), (7312, 7354),
     (7357, 7359), (7424, 7615), (7680, 7957), (7960, 7965), (7968, 8005), (8008, 8013),
     (8016, 8023), (8025, 8025), (8027, 8027), (8029, 8029), (8031, 8061), (8064, 8116),
     (8118, 8124), (8126, 8126), (8130, 8132), (8134, 8140), (8144, 8147), (8150, 8155),
     (8160, 8172), (8178, 8180), (8182, 8188), (8305, 8305), (8319, 8319), (8336, 8348),
     (8450, 8450), (8455, 8455), (8458, 8467), (8469, 8469), (8473, 8477), (8484, 8484),
     (8486, 8486), (8488, 8488), (8490, 8493), (8495, 8500), (8505, 8505), (8508, 8511),
     (8517, 8521), (8526, 8526), (8544, 8575), (8579, 8580), (9398, 9449), (11264, 11492),
     (11499, 11502), (11506, 11507), (11520, 11557), (11559, 11559), (11565, 11565), (42560, 42605),
     (42624, 42653), (42786, 42887), (42891, 42894), (42896, 42954), (42960, 42961), (42963, 42963),
     (42965, 42969), (42997, 42998), (43000, 43002), (43824, 43866), (43868, 43880), (43888, 43967),
     (64256, 64262), (64275, 64279), (65313, 65338), (65345, 65370), (66560, 66639), (66736, 66771),
     (66776, 66811), (66928, 66938), (66940, 66954), (66956, 66962), (66964, 66965), (66967, 66977),
     (66979, 66993), (66995, 67001), (67003, 67004), (67456, 67456), (67459, 67461), (67463, 67504),
     (67506, 67514), (68736, 68786), (68800, 68850), (71840, 71903), (93760, 93823), (119808, 119892),
     (119894, 119964), (119966, 119967), (119970, 119970), (119973, 119974), (119977, 119980), (119982, 119993),
     (119995, 119995), (119997, 120003), (120005, 120069), (120071, 120074), (120077, 120084), (120086, 120092),
     (120094, 120121), (120123, 120126), (120128, 120132), (120134, 120134), (120138, 120144), (120146, 120485),
     (120488, 120512), (120514, 120538), (120540, 120570), (120572, 120596), (120598, 120628), (120630, 120654),
     (120656, 120686), (120688, 120712), (120714, 120744), (120746, 120770), (120772, 120779), (122624, 122633),
     (122635, 122654), (125184, 125251), (127280, 127305), (127312, 127337), (127344, 127369)]"

fun code_points :: "jstring \<Rightarrow> int list" where
  "code_points (h # l # cs) =
     (if 55296 \<le> h \<and> h \<le> 56319 \<and> 56320 \<le> l \<and> l \<le> 57343
      then (65536 + (h - 55296) * 1024 + (l - 56320)) # code_points cs
      else h # code_points (l # cs))"
| "code_points cs = cs"

definition code_units :: "int \<Rightarrow> jstring" where
  "code_units c =
     (if c < 65536 then [c] else [55296 + (c - 65536) div 1024, 56320 + (c - 65536) mod 1024])"

definition in_ranges :: "(int \<times> int) list \<Rightarrow> int \<Rightarrow> bool" where
  "in_ranges table c = list_ex (\<lambda>(lo, hi). lo \<le> c \<and> c \<le> hi) table"

definition lower_point :: "int \<Rightarrow> int list" where
  "lower_point c =
     (if c < 128 then [lower_unit c]
      else if c = 304 then [105, 775]
      else (case find (\<lambda>(lo, hi, step, offset).
                         lo \<le> c \<and> c \<le> hi \<and> (c - lo) mod step = 0) lower_table of
              None \<Rightarrow> [c]
            | Some (lo, hi, step, offset) \<Rightarrow> [c + offset]))"

text \<open>Whether a cased letter comes next in \<open>cs\<close>, case-ignorable code points skipped.\<close>

definition cased_next :: "int list \<Rightarrow> bool" where
  "cased_next cs =
     (case dropWhile (in_ranges case_ignorable_table) cs of
        [] \<Rightarrow> False
      | c # others \<Rightarrow> in_ranges cased_table c)"

text \<open>\<open>passed\<close> holds the code points already passed, the nearest first.\<close>

fun lower_points :: "int list \<Rightarrow> int list \<Rightarrow> int list" where
  "lower_points passed [] = []"
| "lower_points passed (c # cs) =
     (if c = 931 \<and> cased_next passed \<and> \<not> cased_next cs then [962] else lower_point c)
       @ lower_points (c # passed) cs"

definition toLowerCase :: "jstring \<Rightarrow> jstring" where
  "toLowerCase s = concat (map code_units (lower_points [] (code_points s)))"

text \<open>\<open>s.includes(k)\<close>: \<open>k\<close> occurs in \<open>s\<close> as a contiguous run.\<close>

definition includes_str :: "jstring \<Rightarrow> jstring \<Rightarrow> bool" where
  "includes_str s k = sublist k s"

text \<open>The character classes the sources use: \<open>\d\<close>, \<open>\s\<close> (also what \<open>trim\<close> strips), \<open>\w\<close>.\<close>

definition is_digit :: "int \<Rightarrow> bool" where
  "is_digit c = (48 \<le> c \<and> c \<le> 57)"

definition is_space :: "int \<Rightarrow> bool" where
  "is_space c =
     ((9 \<le> c \<and> c \<le> 13) \<or> c = 32 \<or> c = 160 \<or> c = 5760 \<or> (8192 \<le> c \<and> c \<le> 8202)
      \<or> c = 8232 \<or> c = 8233 \<or> c = 8239 \<or> c = 8287 \<or> c = 12288 \<or> c = 65279)"

definition is_word :: "int \<Rightarrow> bool" where
  "is_word c = ((48 \<le> c \<and> c \<le> 57) \<or> (65 \<le> c \<and> c \<le> 90) \<or> c = 95 \<or> (97 \<le> c \<and> c \<le> 122))"

definition is_letter :: "int \<Rightarrow> bool" where
  "is_letter c = ((65 \<le> c \<and> c \<le> 90) \<or> (97 \<le> c \<and> c \<le> 122))"

text \<open>\<open>s.trim()\<close>, \<open>s.split('\n')\<close> and \<open>s.slice(i, j)\<close> for \<open>0 \<le> i\<close>.\<close>

definition trim :: "jstring \<Rightarrow> jstring" where
  "trim s = rev (dropWhile is_space (rev (dropWhile is_space s)))"

fun split_on :: "int \<Rightarrow> jstring \<Rightarrow> jstring list" where
  "split_on sep [] = [[]]"
| "split_on sep (c # cs) =
     (if c = sep then [] # split_on sep cs
      else (case split_on sep cs of [] \<Rightarrow> [[c]] | l # ls \<Rightarrow> (c # l) # ls))"

definition slice :: "jstring \<Rightarrow> nat \<Rightarrow> nat \<Rightarrow> jstring" where
  "slice s i j = take (j - i) (drop i s)"

section \<open>JavaScript numbers\<close>

text \<open>
  The numbers the legacy parser computes are doubles that are not negative: \<open>Finite r\<close> is
  the double of value \<open>r\<close>, \<open>Infinity\<close> is what a numeral beyond the range of the doubles
  is read as. The order is the one of \<open><\<close>, \<open>>\<close> and \<open>Math.max\<close>.
\<close>

datatype number = Finite rat | Infinity

instantiation number :: linorder
begin

fun less_eq_number :: "number \<Rightarrow> number \<Rightarrow> bool" where
  "less_eq_number (Finite a) (Finite b) = (a \<le> b)"
| "less_eq_number x Infinity = True"
| "less_eq_number Infinity (Finite b) = False"

definition less_number :: "number \<Rightarrow> number \<Rightarrow> bool" where
  "less_number x y = (x \<le> y \<and> \<not> y \<le> x)"

instance
proof
  fix x y z :: number
  show "(x < y) = (x \<le> y \<and> \<not> y \<le> x)"
    by (simp add: less_number_def)
  show "x \<le> x"
    by (cases x) simp_all
  show "x \<le> y \<Longrightarrow> y \<le> z \<Longrightarrow> x \<le> z"
    by (cases x; cases y; cases z) simp_all
  show "x \<le> y \<Longrightarrow> y \<le> x \<Longrightarrow> x = y"
    by (cases x; cases y) simp_all
  show "x \<le> y \<or> y \<le> x"
    by (cases x; cases y) auto
qed

end

instantiation number :: zero
begin

definition zero_number :: number where
  "zero_number = Finite 0"

instance ..

end

text \<open>
  The double nearest to a decimal that is not negative, ties to the even significand, as
  \<open>parseFloat\<close> rounds: \<open>floor_log2 q\<close> is the binary exponent of \<open>q\<close>; the significand has 53
  bits, down to the exponent \<open>-1022\<close>, below which the spacing stays \<open>2^-1074\<close>; a result
  of \<open>2^1024\<close> or more is \<open>Infinity\<close>.
\<close>

definition two_to :: "int \<Rightarrow> rat" where
  "two_to e = (if 0 \<le> e then 2 ^ nat e else 1 / 2 ^ nat (- e))"

definition floor_log2 :: "rat \<Rightarrow> int" where
  "floor_log2 q =
     (let (n, d) = quotient_of q; e = bitlen n - bitlen d
      in if two_to e \<le> q then e else e - 1)"

definition round_half_even :: "rat \<Rightarrow> int" where
  "round_half_even x =
     (let f = \<lfloor>x\<rfloor>; r = x - of_int f
      in if r < 1 / 2 then f else if 1 / 2 < r then f + 1 else if even f then f else f + 1)"

definition to_double :: "rat \<Rightarrow> number" where
  "to_double q =
     (if q = 0 then Finite 0
      else if 1024 \<le> floor_log2 q then Infinity
      else let ulp = two_to (max (floor_log2 q) (- 1022) - 52);
               k = round_half_even (q / ulp)
           in if floor_log2 q = 1023 \<and> k = 2 ^ 53 then Infinity else Finite (of_int k * ulp))"

section \<open>Regular expressions\<close>

text \<open>
  The regular expressions of the sources are kept as syntax trees and run by a
  backtracking matcher with the priorities of the JavaScript one: alternatives from left
  to right, greedy quantifiers, an iteration of \<open>*\<close> that consumes nothing is given up.
  A matcher state is a position in the subject: how many code units lie behind it, the code
  unit just before it (for \<open>\b\<close>), the code units ahead, and the groups captured so far. The
  matcher returns the states in which the expression can end, best first.
\<close>

datatype re =
    Chars "int \<Rightarrow> bool"
  | Seq re re
  | Alt re re
  | Star re
  | Group nat re
  | Bol
  | Eol
  | WordB
  | Eps

record mstate =
  pos :: nat
  prev :: "int option"
  rest :: jstring
  caps :: "(nat \<times> jstring) list"

fun star :: "(mstate \<Rightarrow> mstate list) \<Rightarrow> nat \<Rightarrow> mstate \<Rightarrow> mstate list" where
  "star f 0 st = [st]"
| "star f (Suc n) st = concat (map (star f n) (filter (\<lambda>st'. pos st < pos st') (f st))) @ [st]"

definition word_before :: "mstate \<Rightarrow> bool" where
  "word_before st = (case prev st of None \<Rightarrow> False | Some c \<Rightarrow> is_word c)"

definition word_after :: "mstate \<Rightarrow> bool" where
  "word_after st = (case rest st of [] \<Rightarrow> False | c # cs \<Rightarrow> is_word c)"

primrec m :: "re \<Rightarrow> mstate \<Rightarrow> mstate list" where
  "m (Chars P) st =
     (case rest st of
        [] \<Rightarrow> []
      | c # cs \<Rightarrow> if P c then [st\<lparr>pos := Suc (pos st), prev := Some c, rest := cs\<rparr>] else [])"
| "m (Seq a b) st = concat (map (m b) (m a st))"
| "m (Alt a b) st = m a st @ m b st"
| "m (Star a) st = star (m a) (length (rest st)) st"
| "m (Group n a) st =
     map (\<lambda>st'. st'\<lparr>caps := (n, take (pos st' - pos st) (rest st)) # caps st'\<rparr>) (m a st)"
| "m Bol st = (if pos st = 0 then [st] else [])"
| "m Eol st = (if rest st = [] then [st] else [])"
| "m WordB st = (if word_before st \<noteq> word_after st then [st] else [])"
| "m Eps st = [st]"

text \<open>
  The search for the leftmost match from position \<open>i\<close>: the start and the end state of the
  match, or \<open>None\<close>.
\<close>

fun scan :: "re \<Rightarrow> nat \<Rightarrow> int option \<Rightarrow> jstring \<Rightarrow> (nat \<times> mstate) option" where
  "scan r i p [] =
     (case m r \<lparr>pos = i, prev = p, rest = [], caps = []\<rparr> of
        [] \<Rightarrow> None
      | st # sts \<Rightarrow> Some (i, st))"
| "scan r i p (c # cs) =
     (case m r \<lparr>pos = i, prev = p, rest = c # cs, caps = []\<rparr> of
        [] \<Rightarrow> scan r (Suc i) (Some c) cs
      | st # sts \<Rightarrow> Some (i, st))"

text \<open>
  A match as the sources read it: \<open>whole\<close> is \<open>match[0]\<close>, \<open>group mt n\<close> is \<open>match[n]\<close>
  (the empty string stands for a group that took no part; the sources only test it with
  \<open>||\<close>).
\<close>

record rmatch =
  whole :: jstring
  groups :: "(nat \<times> jstring) list"

definition group :: "rmatch \<Rightarrow> nat \<Rightarrow> jstring" where
  "group mt n = (case map_of (groups mt) n of None \<Rightarrow> [] | Some g \<Rightarrow> g)"

text \<open>\<open>s.match(r)\<close> and \<open>r.exec(s)\<close> for \<open>r\<close> without the \<open>g\<close> flag, and \<open>r.test(s)\<close>.\<close>

definition match_first :: "re \<Rightarrow> jstring \<Rightarrow> rmatch option" where
  "match_first r s =
     (case scan r 0 None s of
        None \<Rightarrow> None
      | Some (i, st) \<Rightarrow> Some \<lparr>whole = slice s i (pos st), groups = caps st\<rparr>)"

definition re_test :: "re \<Rightarrow> jstring \<Rightarrow> bool" where
  "re_test r s = (match_first r s \<noteq> None)"

text \<open>
  Matching with the \<open>g\<close> flag (\<open>s.matchAll(r)\<close>, \<open>s.match(r)\<close>): all matches from left to
  right, each search starting where the last match ended, one code unit further after an
  empty match.
\<close>

definition prev_at :: "jstring \<Rightarrow> nat \<Rightarrow> int option" where
  "prev_at s i = (if i = 0 then None else Some (s ! (i - 1)))"

lemma scan_start: "scan r i p cs = Some (j, st) \<Longrightarrow> i \<le> j \<and> j \<le> i + length cs"
proof (induction cs arbitrary: i p)
  case Nil
  then show ?case by (auto split: list.splits)
next
  case (Cons c cs)
  show ?case
  proof (cases "m r \<lparr>pos = i, prev = p, rest = c # cs, caps = []\<rparr>")
    case Nil
    with Cons.prems have "scan r (Suc i) (Some c) cs = Some (j, st)" by simp
    from Cons.IH [OF this] show ?thesis by simp
  next
    case (Cons st' sts)
    with Cons.prems show ?thesis by simp
  qed
qed

text \<open>
  The state of the loop is the result of the latest search; \<open>search_from\<close> is the search
  that starts at \<open>lastIndex\<close>.
\<close>

definition search_from :: "re \<Rightarrow> jstring \<Rightarrow> nat \<Rightarrow> (nat \<times> mstate) option" where
  "search_from r s start =
     (if length s < start then None else scan r start (prev_at s start) (drop start s))"

lemma search_from_start:
  "search_from r s start = Some (j, st) \<Longrightarrow> start \<le> j \<and> j \<le> length s"
  using scan_start [of r start "prev_at s start" "drop start s" j st]
  by (auto simp: search_from_def split: if_splits)

function matches_after :: "re \<Rightarrow> jstring \<Rightarrow> (nat \<times> mstate) option \<Rightarrow> rmatch list" where
  "matches_after r s None = []"
| "matches_after r s (Some (i, st)) =
     \<lparr>whole = slice s i (pos st), groups = caps st\<rparr>
       # matches_after r s (search_from r s (if pos st \<le> i then Suc i else pos st))"
  by pat_completeness auto
termination
proof (relation "measure (\<lambda>(r, s, found).
    case found of None \<Rightarrow> 0 | Some (i, st) \<Rightarrow> Suc (Suc (length s) - i))")
  show "wf (measure (\<lambda>(r, s, found).
    case found of None \<Rightarrow> 0 | Some (i, st) \<Rightarrow> Suc (Suc (length s) - i)))"
    by simp
next
  fix r :: re and s :: jstring and i :: nat and st :: mstate
  let ?next = "search_from r s (if pos st \<le> i then Suc i else pos st)"
  show "((r, s, ?next), (r, s, Some (i, st))) \<in> measure (\<lambda>(r, s, found).
    case found of None \<Rightarrow> 0 | Some (i, st) \<Rightarrow> Suc (Suc (length s) - i))"
  proof (cases ?next)
    case None
    then show ?thesis by simp
  next
    case (Some found)
    obtain j st' where found: "found = (j, st')" by (cases found)
    from Some found
    have "(if pos st \<le> i then Suc i else pos st) \<le> j \<and> j \<le> length s"
      by (intro search_from_start) simp
    then have "i < j" and "j \<le> length s"
      by (auto split: if_splits)
    with Some found show ?thesis by simp
  qed
qed

definition match_all :: "re \<Rightarrow> jstring \<Rightarrow> nat \<Rightarrow> rmatch list" where
  "match_all r s start = matches_after r s (search_from r s start)"

text \<open>How the sources' patterns are written down.\<close>

definition chr :: "string \<Rightarrow> re" where
  "chr cs = Chars (\<lambda>c. c \<in> set (str cs))"

definition lit :: "string \<Rightarrow> re" where
  "lit s = foldr (\<lambda>c r. Seq (Chars (\<lambda>x. x = c)) r) (str s) Eps"

text \<open>A literal under the \<open>i\<close> flag: an ASCII letter stands for both of its cases.\<close>

definition liti :: "string \<Rightarrow> re" where
  "liti s = foldr (\<lambda>c r. Seq (Chars (\<lambda>x. lower_unit x = lower_unit c)) r) (str s) Eps"

fun seqs :: "re list \<Rightarrow> re" where
  "seqs [] = Eps"
| "seqs [r] = r"
| "seqs (r # rs) = Seq r (seqs rs)"

fun alts :: "re list \<Rightarrow> re" where
  "alts [] = Eps"
| "alts [r] = r"
| "alts (r # rs) = Alt r (alts rs)"

definition opt :: "re \<Rightarrow> re" where
  "opt r = Alt r Eps"

definition many1 :: "re \<Rightarrow> re" where
  "many1 r = Seq r (Star r)"

definition digit :: re where
  "digit = Chars is_digit"

definition space :: re where
  "space = Chars is_space"

definition anychar :: re where
  "anychar = Chars (\<lambda>c. True)"

section \<open>Keyword categorizer (\<open>_shared/categorizer.ts\<close>)\<close>

datatype direction = Debit | Credit

text \<open>The table in its declared order, which is the order \<open>Object.entries\<close> walks.\<close>

definition CATEGORY_KEYWORDS :: "(string \<times> string list) list" where
  "CATEGORY_KEYWORDS =
    [(''Dining'',
        [''starbucks'', ''mcdonald'', ''kfc'', ''restaurant'', ''cafe'', ''ubereats'', ''doordash'',
         ''pizza'', ''burger'', ''subway'', ''tim hortons'', ''wendy'', ''taco bell'', ''domino'',
         ''food'', ''bar'', ''pub'', ''bistro'', ''diner'', ''grill'']),
     (''Groceries'',
        [''walmart'', ''costco'', ''no frills'', ''loblaws'', ''aldi'', ''kroger'', ''metro'',
         ''supermarket'', ''grocery'', ''food basics'', ''sobeys'', ''safeway'', ''whole foods'',
         ''produce'', ''market'']),
     (''Transport'',
        [''uber'', ''lyft'', ''gas'', ''shell'', ''esso'', ''petro'', ''bp'', ''metro pass'',
         ''fuel'', ''taxi'', ''bus'', ''transit'', ''parking'', ''toll'', ''car wash'',
         ''vehicle'', ''automotive'']),
     (''Utilities'',
        [''hydro'', ''electric'', ''water'', ''gas bill'', ''internet'', ''rogers'', ''bell'',
         ''verizon'', ''phone'', ''cable'', ''utility'', ''power'', ''heating'', ''cooling'']),
     (''Rent'',
        [''rent'', ''landlord'', ''property mgmt'', ''lease'', ''housing'', ''apartment'',
         ''condo'', ''mortgage'']),
     (''Income'',
        [''salary'', ''payroll'', ''deposit'', ''credited'', ''refund'', ''transfer in'',
         ''bonus'', ''commission'', ''dividend'', ''interest'', ''payment received'']),
     (''Shopping'',
        [''amazon'', ''target'', ''best buy'', ''clothing'', ''shoes'', ''electronics'',
         ''department store'', ''mall'', ''retail'', ''purchase'']),
     (''Healthcare'',
        [''pharmacy'', ''doctor'', ''hospital'', ''clinic'', ''medical'', ''dental'',
         ''prescription'', ''health'', ''insurance'']),
     (''Entertainment'',
        [''movie'', ''theater'', ''netflix'', ''spotify'', ''game'', ''concert'',
         ''entertainment'', ''streaming'', ''subscription''])]"

text \<open>\<open>CATEGORY_KEYWORDS['Income']\<close>.\<close>

definition income_keywords :: "string list" where
  "income_keywords = (case map_of CATEGORY_KEYWORDS ''Income'' of Some ks \<Rightarrow> ks | None \<Rightarrow> [])"

text \<open>The inner loop \<open>for (const keyword of keywords) if (lower.includes(keyword)) return\<close>.\<close>

fun any_keyword :: "jstring \<Rightarrow> string list \<Rightarrow> bool" where
  "any_keyword lowerDescription [] = False"
| "any_keyword lowerDescription (keyword # keywords) =
     (if includes_str lowerDescription (str keyword) then True
      else any_keyword lowerDescription keywords)"

text \<open>The outer loop over \<open>Object.entries(CATEGORY_KEYWORDS)\<close>.\<close>

fun scan_categories :: "(string \<times> string list) list \<Rightarrow> jstring \<Rightarrow> direction \<Rightarrow> jstring" where
  "scan_categories [] lowerDescription t = str ''Uncategorized''"
| "scan_categories ((category, keywords) # entries) lowerDescription t =
     (if category = ''Income'' \<and> t \<noteq> Credit then scan_categories entries lowerDescription t
      else if any_keyword lowerDescription keywords then str category
      else scan_categories entries lowerDescription t)"

definition categorizeTransaction :: "jstring \<Rightarrow> direction \<Rightarrow> jstring" where
  "categorizeTransaction description t =
     (let lowerDescription = toLowerCase description in
      if t = Credit \<and> any_keyword lowerDescription income_keywords then str ''Income''
      else scan_categories CATEGORY_KEYWORDS lowerDescription t)"

section \<open>The AI structuring extractor (\<open>structure_with_gemini\<close>)\<close>

text \<open>
  A thrown error: the name of its class and its message. \<open>String(error)\<close> joins the two.
\<close>

datatype thrown = Thrown jstring jstring

definition Error :: "jstring \<Rightarrow> thrown" where
  "Error msg = Thrown (str ''Error'') msg"

definition TypeError :: "jstring \<Rightarrow> thrown" where
  "TypeError msg = Thrown (str ''TypeError'') msg"

fun error_string :: "thrown \<Rightarrow> jstring" where
  "error_string (Thrown name msg) =
     (if name = [] then msg else if msg = [] then name else name @ str '': '' @ msg)"

text \<open>
  The values \<open>JSON.parse\<close> gives. \<open>JNum r\<close> is the finite number of value \<open>r\<close> (the two zeros
  are not told apart); \<open>JInfinity\<close> and \<open>JMinusInfinity\<close> are what a numeral beyond the range
  of the doubles, such as \<open>1e400\<close>, is read as. An object is the list of its own properties
  in order; \<open>get_prop v k\<close> is the property access \<open>v.k\<close>, with \<open>None\<close> for \<open>undefined\<close> (the
  names the sources read are no properties of strings, numbers or arrays).
\<close>

datatype json =
    JNull
  | JBool bool
  | JNum rat
  | JInfinity
  | JMinusInfinity
  | JStr jstring
  | JArr "json list"
  | JObj "(jstring \<times> json) list"

fun get_prop :: "json \<Rightarrow> string \<Rightarrow> json option" where
  "get_prop (JObj kvs) k = map_of kvs (str k)"
| "get_prop v k = None"

fun set_prop :: "json \<Rightarrow> string \<Rightarrow> json \<Rightarrow> json" where
  "set_prop (JObj kvs) k x = JObj (AList.update (str k) x kvs)"
| "set_prop v k x = v"

text \<open>The truth value JavaScript gives a value in \<open>!v\<close>, \<open>v || d\<close> and \<open>v && w\<close>.\<close>

fun truthy :: "json option \<Rightarrow> bool" where
  "truthy None = False"
| "truthy (Some JNull) = False"
| "truthy (Some (JBool b)) = b"
| "truthy (Some (JNum n)) = (n \<noteq> 0)"
| "truthy (Some JInfinity) = True"
| "truthy (Some JMinusInfinity) = True"
| "truthy (Some (JStr s)) = (s \<noteq> [])"
| "truthy (Some (JArr vs)) = True"
| "truthy (Some (JObj kvs)) = True"

text \<open>\<open>/\{[\s\S]*\}$/\<close>\<close>

definition json_re :: re where
  "json_re = seqs [lit ''{'', Star anychar, lit ''}'', Eol]"

text \<open>
  \<open>extractJson\<close>. \<open>JSON.parse\<close> belongs to the runtime and is a parameter: \<open>None\<close> when it
  throws. An \<open>Error\<close> is modelled by its message.
\<close>

definition extractJson :: "(jstring \<Rightarrow> json option) \<Rightarrow> jstring \<Rightarrow> thrown + json" where
  "extractJson JSON_parse s =
     (case match_first json_re s of
        None \<Rightarrow> Inl (Error (str ''No JSON found in response''))
      | Some mt \<Rightarrow>
          (case JSON_parse (whole mt) of
             None \<Rightarrow> Inl (Error (str ''Invalid JSON in response''))
           | Some v \<Rightarrow> Inr v))"

definition cats :: "string list" where
  "cats = [''shopping'', ''rent'', ''utility'', ''grocery'', ''dining'', ''transportation'',
           ''entertainment'', ''health'', ''income'', ''fees'', ''transfers'', ''education'', ''other'']"

text \<open>\<open>/^\d{4}-\d{2}-\d{2}$/\<close>\<close>

definition ymd_re :: re where
  "ymd_re = seqs [Bol, digit, digit, digit, digit, lit ''-'', digit, digit, lit ''-'', digit, digit, Eol]"

text \<open>
  \<open>/^\d{4}-\d{2}-\d{2}$/.test(v)\<close> converts \<open>v\<close> to a string first. The conversion of an
  object calls its \<open>toString\<close>: an own property of that name, which in parsed JSON is never
  a function, hides the inherited method, and the conversion throws a \<open>TypeError\<close> (the
  message is the one of V8). An array converts its elements, \<open>null\<close> apart, and joins them
  by commas.
\<close>

fun conversion_throws :: "json \<Rightarrow> bool" where
  "conversion_throws (JObj kvs) = (str ''toString'' \<in> set (map fst kvs))"
| "conversion_throws (JArr vs) = list_ex conversion_throws vs"
| "conversion_throws v = False"

definition not_primitive :: thrown where
  "not_primitive = TypeError (str ''Cannot convert object to primitive value'')"

text \<open>
  The test on a value whose conversion does not throw. A string is itself; an array of
  one element converts as that element does (\<open>null\<close> inside an array gives the empty
  string); every other conversion (\<open>null\<close>, \<open>true\<close>, a numeral, \<open>Infinity\<close>,
  \<open>[object Object]\<close>, elements joined by commas) is a text the pattern cannot match.
\<close>

fun date_test :: "json \<Rightarrow> bool" where
  "date_test (JStr s) = re_test ymd_re s"
| "date_test (JArr [v]) = date_test v"
| "date_test v = False"

text \<open>\<open>[...].includes(v)\<close> on an array of strings.\<close>

definition includes_val :: "string list \<Rightarrow> json option \<Rightarrow> bool" where
  "includes_val xs v = (case v of Some (JStr s) \<Rightarrow> s \<in> set (map str xs) | _ \<Rightarrow> False)"

text \<open>\<open>!rec || typeof rec !== "object"\<close> is false exactly for objects and arrays.\<close>

fun is_object :: "json \<Rightarrow> bool" where
  "is_object (JObj kvs) = True"
| "is_object (JArr vs) = True"
| "is_object v = False"

text \<open>\<open>v !== null && typeof v !== "string"\<close>\<close>

fun not_null_or_string :: "json option \<Rightarrow> bool" where
  "not_null_or_string (Some JNull) = False"
| "not_null_or_string (Some (JStr s)) = False"
| "not_null_or_string v = True"

text \<open>\<open>typeof v !== "number" || v < 0\<close>\<close>

fun not_number_or_negative :: "json option \<Rightarrow> bool" where
  "not_number_or_negative (Some (JNum a)) = (a < 0)"
| "not_number_or_negative (Some JInfinity) = False"
| "not_number_or_negative v = True"

definition validate :: "json \<Rightarrow> thrown + json" where
  "validate rec =
     (if \<not> is_object rec then Inl (Error (str ''Invalid record structure''))
      else if \<not> includes_val [''in'', ''out''] (get_prop rec ''type'')
        then Inl (Error (str (''Invalid type - must be 'in' or 'out'' @ [CHR 0x27])))
      else if \<not> includes_val cats (get_prop rec ''category'') then Inl (Error (str ''Invalid category''))
      else if not_number_or_negative (get_prop rec ''amount'')
        then Inl (Error (str ''Invalid amount - must be positive number''))
      else if (case get_prop rec ''date'' of None \<Rightarrow> False | Some v \<Rightarrow> conversion_throws v)
        then Inl not_primitive
      else if (case get_prop rec ''date'' of None \<Rightarrow> True | Some JNull \<Rightarrow> False | Some v \<Rightarrow> \<not> date_test v)
        then Inl (Error (str ''Invalid date format - must be YYYY-MM-DD''))
      else if not_null_or_string (get_prop rec ''sub_category'') then Inl (Error (str ''Invalid sub_category''))
      else if not_null_or_string (get_prop rec ''note'') then Inl (Error (str ''Invalid note''))
      else Inr (case get_prop rec ''sub_category'' of
                  Some (JStr s) \<Rightarrow> set_prop rec ''sub_category'' (JStr (slice (toLowerCase s) 0 60))
                | _ \<Rightarrow> rec))"

section \<open>The legacy rule-based parser (\<open>_shared/receipt-parser.ts\<close>)\<close>

record ParsedTransaction =
  pt_date :: jstring
  pt_description :: jstring
  pt_amount :: number
  pt_type :: direction

subsection \<open>\<open>extractDate\<close>\<close>

definition month_names :: "string list" where
  "month_names = [''Jan'', ''Feb'', ''Mar'', ''Apr'', ''May'', ''Jun'',
                  ''Jul'', ''Aug'', ''Sep'', ''Oct'', ''Nov'', ''Dec'']"

definition weekday_names :: "string list" where
  "weekday_names = [''Mon'', ''Tue'', ''Wed'', ''Thu'', ''Fri'', ''Sat'', ''Sun'']"

text \<open>\<open>(Jan|Feb|...|Dec)\<close> and \<open>(Mon|Tue|...|Sun)\<close> under the \<open>i\<close> flag, \<open>\d{1,2}\<close>, \<open>\d{4}\<close>, \<open>[\/\-.]\<close>.\<close>

definition month_alt :: re where
  "month_alt = alts (map liti month_names)"

definition weekday_alt :: re where
  "weekday_alt = alts (map liti weekday_names)"

definition digits_1_2 :: re where
  "digits_1_2 = Seq digit (opt digit)"

definition digits_4 :: re where
  "digits_4 = seqs [digit, digit, digit, digit]"

definition date_sep :: re where
  "date_sep = chr ''/-.''"

text \<open>The five patterns, in the order of the source; \<open>[a-z]\<close> under the \<open>i\<close> flag is any ASCII letter.\<close>

definition datePatterns :: "re list" where
  "datePatterns =
    [seqs [WordB, Group 1 weekday_alt, opt (lit '',''), many1 space, Group 2 month_alt, many1 space,
           Group 3 digits_1_2, opt (lit '',''), many1 space, Group 4 digits_4, WordB],
     seqs [WordB, Group 1 month_alt, many1 space, Group 2 digits_1_2, opt (lit '',''), many1 space,
           Group 3 digits_4, WordB],
     seqs [WordB, Group 1 digits_1_2, date_sep, Group 2 digits_1_2, date_sep, Group 3 digits_4, WordB],
     seqs [WordB, Group 1 digits_4, date_sep, Group 2 digits_1_2, date_sep, Group 3 digits_1_2, WordB],
     seqs [WordB, Group 1 digits_1_2, many1 space, Group 2 month_alt, Star (Chars is_letter),
           many1 space, Group 3 digits_4, WordB]]"

text \<open>\<open>/(Jan|...|Dec)\s+(\d{1,2}),?\s+(\d{4})/i\<close>\<close>

definition monthMatch_re :: re where
  "monthMatch_re =
     seqs [Group 1 month_alt, many1 space, Group 2 digits_1_2, opt (lit '',''), many1 space,
           Group 3 digits_4]"

definition monthMap :: "(jstring \<times> jstring) list" where
  "monthMap = map (\<lambda>(k, v). (str k, str v))
     [(''Jan'', ''01''), (''Feb'', ''02''), (''Mar'', ''03''), (''Apr'', ''04''),
      (''May'', ''05''), (''Jun'', ''06''), (''Jul'', ''07''), (''Aug'', ''08''),
      (''Sep'', ''09''), (''Oct'', ''10''), (''Nov'', ''11''), (''Dec'', ''12'')]"

text \<open>\<open>dateStr.includes('Sep') || dateStr.includes('Jan') || ...\<close>: case-sensitive.\<close>

definition has_month_name :: "jstring \<Rightarrow> bool" where
  "has_month_name dateStr = list_ex (\<lambda>name. includes_str dateStr (str name)) month_names"

text \<open>\<open>s.padStart(2, '0')\<close>\<close>

definition padStart2 :: "jstring \<Rightarrow> jstring" where
  "padStart2 s = replicate (2 - length s) 48 @ s"

text \<open>
  The branch for a match that holds a month name. A key that \<open>monthMap\<close> lacks reads as
  \<open>undefined\<close> in the template string.
\<close>

definition month_name_date :: "jstring \<Rightarrow> jstring option" where
  "month_name_date dateStr =
     (if has_month_name dateStr then
        (case match_first monthMatch_re dateStr of
           None \<Rightarrow> None
         | Some monthMatch \<Rightarrow>
             let month = (case map_of monthMap (group monthMatch 1) of
                            None \<Rightarrow> str ''undefined'' | Some mm \<Rightarrow> mm);
                 day = padStart2 (group monthMatch 2);
                 year = group monthMatch 3
             in Some (year @ str ''-'' @ month @ str ''-'' @ day))
      else None)"

text \<open>
  The loop over the patterns. \<open>new Date(dateStr)\<close> belongs to the runtime: the parameter
  \<open>Date_iso\<close> gives \<open>parsed.toISOString().split('T')[0]\<close>, or \<open>None\<close> when the time value is
  \<open>NaN\<close>. \<open>None\<close> as the result of the loop means that it ran to its end.
\<close>

fun date_from_patterns :: "(jstring \<Rightarrow> jstring option) \<Rightarrow> re list \<Rightarrow> jstring \<Rightarrow> jstring option" where
  "date_from_patterns Date_iso [] text = None"
| "date_from_patterns Date_iso (pattern # patterns) text =
     (case match_all pattern text 0 of
        [] \<Rightarrow> date_from_patterns Date_iso patterns text
      | mt # mts \<Rightarrow>
          (case month_name_date (whole mt) of
             Some d \<Rightarrow> Some d
           | None \<Rightarrow>
               (case Date_iso (whole mt) of
                  Some d \<Rightarrow> Some d
                | None \<Rightarrow> date_from_patterns Date_iso patterns text)))"

text \<open>\<open>today\<close> is \<open>new Date().toISOString().split('T')[0]\<close>, the processing day.\<close>

definition extractDate :: "(jstring \<Rightarrow> jstring option) \<Rightarrow> jstring \<Rightarrow> jstring \<Rightarrow> jstring" where
  "extractDate Date_iso today text =
     (case date_from_patterns Date_iso datePatterns text of
        Some d \<Rightarrow> d
      | None \<Rightarrow> today)"

subsection \<open>\<open>extractAmount\<close>\<close>

text \<open>
  \<open>parseFloat\<close> on the texts the sources pass to it, which hold digits, at most one point
  and digits: the double nearest to the decimal they denote, \<open>None\<close> for \<open>NaN\<close>.
\<close>

definition digits_value :: "jstring \<Rightarrow> int" where
  "digits_value ds = foldl (\<lambda>a d. 10 * a + (d - 48)) 0 ds"

definition parseFloat :: "jstring \<Rightarrow> number option" where
  "parseFloat s =
     (let whole_part = takeWhile is_digit s;
          after = dropWhile is_digit s;
          fraction = (case after of [] \<Rightarrow> [] | c # cs \<Rightarrow> if c = 46 then takeWhile is_digit cs else [])
      in if whole_part = [] \<and> fraction = [] then None
         else Some (to_double (of_int (digits_value whole_part)
                               + of_int (digits_value fraction) / 10 ^ length fraction)))"

text \<open>\<open>Math.max(...xs)\<close> for a list that is not empty (the sources call it on no other).\<close>

fun math_max :: "number list \<Rightarrow> number" where
  "math_max (x # xs) = fold max xs x"

text \<open>The currency signs: dollar, euro, pound, yen, rupee, rouble.\<close>

definition is_currency :: "int \<Rightarrow> bool" where
  "is_currency c = (c = 36 \<or> c = 8364 \<or> c = 163 \<or> c = 165 \<or> c = 8377 \<or> c = 8381)"

text \<open>\<open>\d{1,3}(?:,\d{3})*(?:\.\d{2})?\<close>\<close>

definition amount_re :: re where
  "amount_re =
     seqs [Seq digit (opt (Seq digit (opt digit))),
           Star (seqs [lit '','', digit, digit, digit]),
           opt (seqs [lit ''.'', digit, digit])]"

definition currencyPatterns :: "re list" where
  "currencyPatterns =
     [Seq (lit ''$'') (Group 1 amount_re),
      Seq (Chars (\<lambda>c. c = 8364 \<or> c = 163 \<or> c = 165 \<or> c = 8377 \<or> c = 8381)) (Group 1 amount_re)]"

text \<open>The body of the loop over the matches: the amounts one match contributes.\<close>

definition currency_amount :: "rmatch \<Rightarrow> number list" where
  "currency_amount mt =
     (let amountStr = filter (\<lambda>c. c \<noteq> 44) (group mt 1) in
      case parseFloat amountStr of
        None \<Rightarrow> []
      | Some amount \<Rightarrow> if 0 < amount then [amount] else [])"

definition currency_amounts :: "jstring \<Rightarrow> number list" where
  "currency_amounts text =
     concat (map (\<lambda>pattern. concat (map currency_amount (match_all pattern text 0))) currencyPatterns)"

text \<open>\<open>s.replace(/\s+/g, ' ')\<close>\<close>

function collapse_spaces :: "jstring \<Rightarrow> jstring" where
  "collapse_spaces [] = []"
| "collapse_spaces (c # cs) =
     (if is_space c then 32 # collapse_spaces (dropWhile is_space cs)
      else c # collapse_spaces cs)"
  by pat_completeness auto
termination
  by (relation "measure length") (auto intro: le_imp_less_Suc length_dropWhile_le)

text \<open>\<open>/(\d+\.?\d*)/\<close>\<close>

definition number_re :: re where
  "number_re = seqs [many1 digit, opt (lit ''.''), Star digit]"

text \<open>
  \<open>extractNumberFromLine\<close>. The match starts with a digit, so \<open>parseFloat\<close> gives a number
  there; the caller only tests the result against \<open>0\<close>.
\<close>

definition extractNumberFromLine :: "jstring \<Rightarrow> number" where
  "extractNumberFromLine line =
     (let cleaned = collapse_spaces (filter (\<lambda>c. c \<noteq> 44) (filter (\<lambda>c. \<not> is_currency c) line)) in
      case match_first (Group 1 number_re) cleaned of
        None \<Rightarrow> 0
      | Some numberMatch \<Rightarrow>
          (case parseFloat (group numberMatch 1) of None \<Rightarrow> 0 | Some a \<Rightarrow> a))"

definition extractAllNumbers :: "jstring \<Rightarrow> number list" where
  "extractAllNumbers text =
     (let cleaned = filter (\<lambda>c. c \<noteq> 44) (filter (\<lambda>c. \<not> is_currency c) text) in
      concat (map (\<lambda>mt. case parseFloat (whole mt) of
                           None \<Rightarrow> []
                         | Some num \<Rightarrow> if 0 < num then [num] else [])
                  (match_all number_re cleaned 0)))"

definition is_total_line :: "jstring \<Rightarrow> bool" where
  "is_total_line line =
     (let lowerLine = toLowerCase line in
      includes_str lowerLine (str ''total'') \<or> includes_str lowerLine (str ''amount'')
      \<or> includes_str lowerLine (str ''balance''))"

text \<open>The loop \<open>for (const line of lines)\<close>; \<open>None\<close> when it ran to its end.\<close>

fun total_line_amount :: "jstring list \<Rightarrow> number option" where
  "total_line_amount [] = None"
| "total_line_amount (line # lines) =
     (if is_total_line line \<and> 0 < extractNumberFromLine line then Some (extractNumberFromLine line)
      else total_line_amount lines)"

definition extractAmount :: "jstring \<Rightarrow> jstring list \<Rightarrow> number" where
  "extractAmount text lines =
     (let amounts = currency_amounts text in
      if amounts \<noteq> [] then math_max amounts
      else (case total_line_amount lines of
              Some amount \<Rightarrow> amount
            | None \<Rightarrow>
                let numbers = extractAllNumbers text;
                    reasonableAmounts = filter (\<lambda>n. 0 < n \<and> n < Finite 100000) numbers
                in if reasonableAmounts \<noteq> [] then math_max reasonableAmounts else 0))"

subsection \<open>\<open>extractMerchant\<close>\<close>

definition merchant_names :: "string list" where
  "merchant_names = [''Amazon'', ''Walmart'', ''Costco'', ''Target'', ''Starbucks'', ''McDonald'',
     ''Tim Hortons'', ''Uber'', ''Lyft'', ''Netflix'', ''Spotify'', ''Apple'', ''Google'',
     ''Microsoft'', ''PayPal'']"

definition merchant_alt :: re where
  "merchant_alt = alts (map liti merchant_names)"

text \<open>\<open>/^(Amazon|...|PayPal)$/i\<close> and \<open>/(Amazon|...|PayPal)\s+/i\<close>\<close>

definition merchantPatterns :: "re list" where
  "merchantPatterns =
     [seqs [Bol, Group 1 merchant_alt, Eol],
      seqs [Group 1 merchant_alt, many1 space]]"

text \<open>The inner loop over the patterns for one line: \<open>match[1] || match[0]\<close> of the first match.\<close>

fun merchant_in_line :: "re list \<Rightarrow> jstring \<Rightarrow> jstring option" where
  "merchant_in_line [] line = None"
| "merchant_in_line (pattern # patterns) line =
     (case match_first pattern line of
        None \<Rightarrow> merchant_in_line patterns line
      | Some mt \<Rightarrow> Some (if group mt 1 \<noteq> [] then group mt 1 else whole mt))"

fun known_merchant :: "jstring list \<Rightarrow> jstring option" where
  "known_merchant [] = None"
| "known_merchant (line # lines) =
     (case merchant_in_line merchantPatterns line of
        None \<Rightarrow> known_merchant lines
      | Some name \<Rightarrow> Some name)"

definition excluded_words :: "string list" where
  "excluded_words = [''transaction'', ''details'', ''posted'', ''card number'', ''category'',
     ''budget'', ''note'', ''merchant'', ''website'',
     ''fri'', ''mon'', ''tue'', ''wed'', ''thu'', ''sat'', ''sun'']"

text \<open>\<open>/^\d+[\d\s\/\-.:*]*$/\<close> and \<open>/^\$\d/\<close>\<close>

definition numeric_line_re :: re where
  "numeric_line_re =
     seqs [Bol, many1 digit,
           Star (Chars (\<lambda>c. is_digit c \<or> is_space c \<or> c \<in> set (str ''/-.:*''))), Eol]"

definition price_re :: re where
  "price_re = seqs [Bol, lit ''$'', digit]"

definition is_candidate :: "jstring \<Rightarrow> bool" where
  "is_candidate line =
     (let lower = toLowerCase line in
      2 < length line \<and> length line < 50
      \<and> re_test (Chars is_letter) line
      \<and> \<not> list_ex (\<lambda>w. includes_str lower (str w)) excluded_words
      \<and> \<not> re_test numeric_line_re line
      \<and> \<not> re_test price_re line
      \<and> \<not> includes_str line (str ''866-'') \<and> \<not> includes_str line (str ''phone''))"

text \<open>
  \<open>candidateLines.sort((a, b) => a.length - b.length)[0]\<close>: the sort is stable, so the first
  of the shortest candidates comes first.
\<close>

definition extractMerchant :: "jstring list \<Rightarrow> jstring" where
  "extractMerchant lines =
     (case known_merchant lines of
        Some name \<Rightarrow> name
      | None \<Rightarrow>
          (case sort_key length (filter is_candidate lines) of
             [] \<Rightarrow> str ''Unknown Merchant''
           | shortest # others \<Rightarrow> shortest))"

subsection \<open>\<open>extractType\<close> and \<open>parseReceiptText\<close>\<close>

definition creditIndicators :: "string list" where
  "creditIndicators = [''credited'', ''refund'', ''salary'', ''payroll'', ''deposit'', ''bonus'',
     ''commission'', ''dividend'', ''interest'', ''payment received'', ''transfer in'',
     ''income'', ''credit'', ''received'']"

definition extractType :: "jstring \<Rightarrow> direction" where
  "extractType text =
     (if any_keyword (toLowerCase text) creditIndicators then Credit else Debit)"

text \<open>\<open>ocrText.split('\n').map(line => line.trim()).filter(line => line.length > 0)\<close>\<close>

definition receipt_lines :: "jstring \<Rightarrow> jstring list" where
  "receipt_lines ocrText = filter (\<lambda>line. 0 < length line) (map trim (split_on 10 ocrText))"

definition parseReceiptText ::
  "(jstring \<Rightarrow> jstring option) \<Rightarrow> jstring \<Rightarrow> jstring \<Rightarrow> ParsedTransaction" where
  "parseReceiptText Date_iso today ocrText =
     (let lines = receipt_lines ocrText in
      \<lparr>pt_date = extractDate Date_iso today ocrText,
       pt_description = extractMerchant lines,
       pt_amount = extractAmount ocrText lines,
       pt_type = extractType ocrText\<rparr>)"

section \<open>The two edge functions\<close>

text \<open>
  What \<open>fetch\<close> gives the orchestrator: an exception, or a response with its status and
  its body read as JSON (\<open>None\<close> when the body is no JSON text).
\<close>

datatype fetched = NetworkError | Response nat "json option"

definition http_ok :: "nat \<Rightarrow> bool" where
  "http_ok st = (200 \<le> st \<and> st \<le> 299)"

subsection \<open>\<open>structure_with_gemini\<close>\<close>

definition userPrompt :: "jstring \<Rightarrow> jstring" where
  "userPrompt ocrText =
     str ''OCR_TEXT:'' @ [10, 34, 34, 34, 10] @ ocrText @ [10, 34, 34, 34, 10, 10]
       @ str ''Return ONLY valid JSON per schema.''"

text \<open>
  \<open>callGemini\<close>. The generative backend is a parameter: for a prompt it gives \<open>Inl\<close> the
  error the call throws (no key, a failed request), or \<open>Inr\<close> the candidate text.
\<close>

definition callGemini :: "(jstring \<Rightarrow> thrown + jstring) \<Rightarrow> jstring \<Rightarrow> thrown + jstring" where
  "callGemini gemini prompt = (case gemini prompt of Inl e \<Rightarrow> Inl e | Inr text \<Rightarrow> Inr (trim text))"

definition error_response :: "nat \<Rightarrow> jstring \<Rightarrow> fetched" where
  "error_response st msg = Response st (Some (JObj [(str ''ok'', JBool False), (str ''error'', JStr msg)]))"

text \<open>
  The handler, from the point where the request has passed the checks on its method, its
  \<open>Authorization\<close> header and its JSON body, as the request of the orchestrator always
  does. The value is the response as the handler builds it.
\<close>

definition structure_with_gemini ::
  "(jstring \<Rightarrow> json option) \<Rightarrow> (jstring \<Rightarrow> thrown + jstring) \<Rightarrow> jstring \<Rightarrow> fetched" where
  "structure_with_gemini JSON_parse gemini ocrText =
     (if ocrText = [] then error_response 400 (str ''ocrText required as string'')
      else (case callGemini gemini (userPrompt ocrText) of
              Inl e \<Rightarrow> error_response 500 (error_string e)
            | Inr resp \<Rightarrow>
                (case extractJson JSON_parse resp of
                   Inl e \<Rightarrow> error_response 500 (error_string e)
                 | Inr parsed \<Rightarrow>
                     (case validate parsed of
                        Inl e \<Rightarrow> error_response 500 (error_string e)
                      | Inr json \<Rightarrow>
                          Response 200 (Some (JObj [(str ''ok'', JBool True), (str ''record'', json)]))))))"

subsection \<open>\<open>process_image\<close>: from the OCR text to the structured data\<close>

record structuredData =
  sd_date :: json
  sd_type :: jstring
  sd_category :: "json option"
  sd_description :: json
  sd_amount :: "json option"
  sd_notes :: "json option"

definition direction_name :: "direction \<Rightarrow> jstring" where
  "direction_name t = (case t of Debit \<Rightarrow> str ''debit'' | Credit \<Rightarrow> str ''credit'')"

text \<open>\<open>v || d\<close>\<close>

definition or_else :: "json option \<Rightarrow> json \<Rightarrow> json" where
  "or_else v d = (case v of None \<Rightarrow> d | Some x \<Rightarrow> if truthy (Some x) then x else d)"

text \<open>A number of the legacy parser as a value of the structured data.\<close>

fun json_number :: "number \<Rightarrow> json" where
  "json_number (Finite r) = JNum r"
| "json_number Infinity = JInfinity"

text \<open>The fallback branch.\<close>

definition legacy_structured :: "(jstring \<Rightarrow> jstring option) \<Rightarrow> jstring \<Rightarrow> jstring \<Rightarrow> structuredData" where
  "legacy_structured Date_iso today ocrText =
     (let legacyParsed = parseReceiptText Date_iso today ocrText;
          legacyCategory = categorizeTransaction (pt_description legacyParsed) (pt_type legacyParsed)
      in \<lparr>sd_date = JStr (pt_date legacyParsed),
          sd_type = direction_name (pt_type legacyParsed),
          sd_category = Some (JStr legacyCategory),
          sd_description = JStr (pt_description legacyParsed),
          sd_amount = Some (json_number (pt_amount legacyParsed)),
          sd_notes = Some JNull\<rparr>)"

text \<open>The branch for an accepted result.\<close>

definition ai_structured :: "jstring \<Rightarrow> json \<Rightarrow> structuredData" where
  "ai_structured today rcd =
     \<lparr>sd_date = or_else (get_prop rcd ''date'') (JStr today),
      sd_type = (if get_prop rcd ''type'' = Some (JStr (str ''in'')) then str ''credit'' else str ''debit''),
      sd_category = get_prop rcd ''category'',
      sd_description = or_else (get_prop rcd ''sub_category'') (JStr (str ''Transaction'')),
      sd_amount = get_prop rcd ''amount'',
      sd_notes = get_prop rcd ''note''\<rparr>"

text \<open>
  The \<open>try\<close> block of the handler with its \<open>catch\<close>: \<open>Inl\<close> is the error response (status
  and \<open>error\<close> text) the caller receives, \<open>Inr\<close> the structured data that goes on to the
  database. Reading \<open>.ok\<close> of \<open>null\<close> throws like the explicit \<open>throw\<close> does.
\<close>

definition structure_failed :: "nat \<times> jstring" where
  "structure_failed = (500, str ''Failed to structure receipt data'')"

definition structure_receipt ::
  "(jstring \<Rightarrow> jstring option) \<Rightarrow> jstring \<Rightarrow> fetched \<Rightarrow> jstring \<Rightarrow> (nat \<times> jstring) + structuredData" where
  "structure_receipt Date_iso today structureResponse ocrText =
     (case structureResponse of
        NetworkError \<Rightarrow> Inl structure_failed
      | Response st body \<Rightarrow>
          if \<not> http_ok st then Inr (legacy_structured Date_iso today ocrText)
          else (case body of
                  None \<Rightarrow> Inl structure_failed
                | Some structureResult \<Rightarrow>
                    if truthy (get_prop structureResult ''ok'')
                       \<and> truthy (get_prop structureResult ''record'')
                    then (case get_prop structureResult ''record'' of
                            None \<Rightarrow> Inl structure_failed
                          | Some rcd \<Rightarrow> Inr (ai_structured today rcd))
                    else Inl structure_failed))"

text \<open>
  The request to the structuring function. \<open>fetch\<close> throws when the function cannot be
  reached; otherwise the orchestrator receives the response of the function with its
  body as JSON text: \<open>JSON.stringify\<close> writes a number that is not finite as \<open>null\<close>, and
  \<open>structureResponse.json()\<close> reads the text back.
\<close>

primrec through_json :: "json \<Rightarrow> json" where
  "through_json JNull = JNull"
| "through_json (JBool b) = JBool b"
| "through_json (JNum n) = JNum n"
| "through_json JInfinity = JNull"
| "through_json JMinusInfinity = JNull"
| "through_json (JStr s) = JStr s"
| "through_json (JArr vs) = JArr (map through_json vs)"
| "through_json (JObj kvs) = JObj (map (map_prod id through_json) kvs)"

datatype network = Unreachable | Reachable

definition received :: "network \<Rightarrow> fetched \<Rightarrow> fetched" where
  "received net response =
     (case net of
        Unreachable \<Rightarrow> NetworkError
      | Reachable \<Rightarrow>
          (case response of
             NetworkError \<Rightarrow> NetworkError
           | Response st body \<Rightarrow> Response st (map_option through_json body)))"

text \<open>The orchestrator (\<open>extract\<close> in the specification) with the structuring function behind the request.\<close>

definition extract_transaction ::
  "(jstring \<Rightarrow> jstring option) \<Rightarrow> jstring \<Rightarrow> (jstring \<Rightarrow> json option) \<Rightarrow> (jstring \<Rightarrow> thrown + jstring)
     \<Rightarrow> network \<Rightarrow> jstring \<Rightarrow> (nat \<times> jstring) + structuredData" where
  "extract_transaction Date_iso today JSON_parse gemini net ocrText =
     structure_receipt Date_iso today
       (received net (structure_with_gemini JSON_parse gemini ocrText)) ocrText"

text \<open>
  The fourth example of the prompt, for the witness below: the answer of the backend, and
  \<open>JSON.parse\<close> on that one text.
\<close>

definition example_answer :: jstring where
  \<open>example_answer = str ''{"date":"2025-09-10","type":"out","category":"fees","sub_category":null,"amount":1.23,"note":"conversion fee"}''\<close>

definition example_record :: json where
  "example_record = JObj [(str ''date'', JStr (str ''2025-09-10'')), (str ''type'', JStr (str ''out'')),
          (str ''category'', JStr (str ''fees'')), (str ''sub_category'', JNull),
          (str ''amount'', JNum (123 / 100)), (str ''note'', JStr (str ''conversion fee''))]"

definition example_gemini :: "jstring \<Rightarrow> thrown + jstring" where
  "example_gemini prompt = Inr example_answer"

definition example_parse :: "jstring \<Rightarrow> json option" where
  "example_parse t = (if t = example_answer then Some example_record else None)"

section \<open>Notions for stating the properties\<close>

text \<open>
  The matcher state \<open>k\<close> code units further on, the state from which the search tries its
  \<open>k\<close>-th start, and equality of two texts up to the case of ASCII letters.
\<close>

definition advance :: "nat \<Rightarrow> mstate \<Rightarrow> mstate" where
  "advance k st =
     st\<lparr>pos := pos st + k,
        prev := (if k = 0 then prev st else Some (rest st ! (k - 1))),
        rest := drop k (rest st)\<rparr>"

definition state_at :: "nat \<Rightarrow> int option \<Rightarrow> jstring \<Rightarrow> nat \<Rightarrow> mstate" where
  "state_at i p cs k =
     \<lparr>pos = i + k, prev = (if k = 0 then p else Some (cs ! (k - 1))), rest = drop k cs, caps = []\<rparr>"

definition ci_eq :: "jstring \<Rightarrow> jstring \<Rightarrow> bool" where
  "ci_eq a b = (map lower_unit a = map lower_unit b)"

text \<open>
  In the words of the specification of \<open>extractMerchant\<close>, as the code has it: \<open>name\<close> spells
  a listed merchant in any letter case, and is the whole line or stands in the line
  directly before a white-space character.
\<close>

definition merchant_hit :: "jstring \<Rightarrow> jstring \<Rightarrow> bool" where
  "merchant_hit line name =
     ((\<exists>M \<in> set merchant_names. ci_eq name (str M))
      \<and> (line = name \<or> (\<exists>before w after. line = before @ name @ w # after \<and> is_space w)))"

text \<open>
  The six conditions of the schema, in the words of the specification, on a parsed
  record; the theorems below compare them with what \<open>validate\<close> checks.
\<close>

definition type_in_or_out :: "json \<Rightarrow> bool" where
  "type_in_or_out rec =
     (get_prop rec ''type'' = Some (JStr (str ''in'')) \<or> get_prop rec ''type'' = Some (JStr (str ''out'')))"

definition category_in_enum :: "json \<Rightarrow> bool" where
  "category_in_enum rec = (\<exists>c \<in> set cats. get_prop rec ''category'' = Some (JStr (str c)))"

definition amount_number_not_negative :: "json \<Rightarrow> bool" where
  "amount_number_not_negative rec =
     ((\<exists>a. get_prop rec ''amount'' = Some (JNum a) \<and> 0 \<le> a) \<or> get_prop rec ''amount'' = Some JInfinity)"

definition date_conversion_throws :: "json \<Rightarrow> bool" where
  "date_conversion_throws rec = (\<exists>v. get_prop rec ''date'' = Some v \<and> conversion_throws v)"

definition date_null_or_ymd :: "json \<Rightarrow> bool" where
  "date_null_or_ymd rec =
     (get_prop rec ''date'' = Some JNull \<or> (\<exists>v. get_prop rec ''date'' = Some v \<and> date_test v))"

definition null_or_string :: "json \<Rightarrow> string \<Rightarrow> bool" where
  "null_or_string rec k = (get_prop rec k = Some JNull \<or> (\<exists>s. get_prop rec k = Some (JStr s)))"

section \<open>Properties of the categorizer\<close>

lemma any_keyword_iff:
  "any_keyword d ks \<longleftrightarrow> (\<exists>k \<in> set ks. sublist (str k) d)"
  by (induction ks) (auto simp: includes_str_def)

lemma scan_categories_find:
  "scan_categories tbl d t =
     (case find (\<lambda>(c, ks). (c = ''Income'' \<longrightarrow> t = Credit) \<and> (\<exists>k \<in> set ks. sublist (str k) d)) tbl of
        None \<Rightarrow> str ''Uncategorized''
      | Some (c, ks) \<Rightarrow> str c)"
  by (induction tbl d t rule: scan_categories.induct) (auto simp: any_keyword_iff)

lemma category_order:
  "map fst CATEGORY_KEYWORDS =
     [''Dining'', ''Groceries'', ''Transport'', ''Utilities'', ''Rent'', ''Income'',
      ''Shopping'', ''Healthcare'', ''Entertainment'']"
  by (simp add: CATEGORY_KEYWORDS_def)

text \<open>
  Lower-casing beyond ASCII: \<open>CAF\<close> with \<open>U+00C9\<close>, \<open>TAX\<close> with \<open>U+0130\<close> (which becomes
  two code units), the Kelvin sign \<open>U+212A\<close>, a Greek word ending in a capital sigma, and
  a Deseret letter written as a surrogate pair. So \<open>TAX\<close> with \<open>U+0130\<close> carries the
  keyword \<open>taxi\<close>.
\<close>

lemma toLowerCase_beyond_ascii:
  "toLowerCase [67, 65, 70, 201] = [99, 97, 102, 233]"
  "toLowerCase [84, 65, 88, 304] = [116, 97, 120, 105, 775]"
  "toLowerCase [8490] = [107]"
  "toLowerCase [927, 916, 927, 931] = [959, 948, 959, 962]"
  "toLowerCase [55297, 56320] = [55297, 56360]"
  "categorizeTransaction [84, 65, 88, 304] Debit = str ''Transport''"
  by code_simp+

lemma categorize_payroll:
  "categorizeTransaction (str ''Payroll Deposit'') Credit = str ''Income''"
  by code_simp

lemma categorize_starbucks:
  "categorizeTransaction (str ''Starbucks Coffee'') Debit = str ''Dining''"
  by code_simp

lemma categorize_unknown_store:
  "categorizeTransaction (str ''Unknown Store XYZ'') Debit = str ''Uncategorized''"
  by code_simp

text \<open>
  C5. \<open>categorizeTransaction\<close> is a total function of the description and the direction:
  on the lower-cased description, a credit with any Income keyword as a substring is
  \<open>Income\<close>; otherwise the result is the first category of the table, in its declared order
  (Dining, Groceries, Transport, Utilities, Rent, Income, Shopping, Healthcare,
  Entertainment; Income is skipped for a debit), one of whose keywords is a substring, and
  \<open>Uncategorized\<close> when there is none. The three examples of the specification hold.
\<close>

theorem categorize_first_match_in_table_order:
  "categorizeTransaction d t =
     (if t = Credit \<and> (\<exists>k \<in> set income_keywords. sublist (str k) (toLowerCase d)) then str ''Income''
      else case find (\<lambda>(c, ks). (c = ''Income'' \<longrightarrow> t = Credit)
                        \<and> (\<exists>k \<in> set ks. sublist (str k) (toLowerCase d))) CATEGORY_KEYWORDS of
             None \<Rightarrow> str ''Uncategorized''
           | Some (c, ks) \<Rightarrow> str c)
   \<and> map fst CATEGORY_KEYWORDS =
       [''Dining'', ''Groceries'', ''Transport'', ''Utilities'', ''Rent'', ''Income'',
        ''Shopping'', ''Healthcare'', ''Entertainment'']
   \<and> map_of CATEGORY_KEYWORDS ''Income'' = Some income_keywords
   \<and> categorizeTransaction (str ''Payroll Deposit'') Credit = str ''Income''
   \<and> categorizeTransaction (str ''Starbucks Coffee'') Debit = str ''Dining''
   \<and> categorizeTransaction (str ''Unknown Store XYZ'') Debit = str ''Uncategorized''"
proof -
  have "categorizeTransaction d t =
     (if t = Credit \<and> (\<exists>k \<in> set income_keywords. sublist (str k) (toLowerCase d)) then str ''Income''
      else case find (\<lambda>(c, ks). (c = ''Income'' \<longrightarrow> t = Credit)
                        \<and> (\<exists>k \<in> set ks. sublist (str k) (toLowerCase d))) CATEGORY_KEYWORDS of
             None \<Rightarrow> str ''Uncategorized''
           | Some (c, ks) \<Rightarrow> str c)"
    unfolding categorizeTransaction_def Let_def any_keyword_iff scan_categories_find ..
  moreover have "map_of CATEGORY_KEYWORDS ''Income'' = Some income_keywords"
    by (simp add: income_keywords_def CATEGORY_KEYWORDS_def)
  ultimately show ?thesis
    using category_order categorize_payroll categorize_starbucks categorize_unknown_store
    by blast
qed

text \<open>
  The table order decides a tie: \<open>walmart uber\<close> carries a Groceries keyword and a
  Transport keyword, and Groceries stands first.
\<close>

lemma tie_break_rhs:
  "(if Debit = Credit \<and> (\<exists>k \<in> set income_keywords. sublist (str k) (toLowerCase (str ''Walmart Uber'')))
    then str ''Income''
    else case find (\<lambda>(c, ks). (c = ''Income'' \<longrightarrow> Debit = Credit)
                      \<and> (\<exists>k \<in> set ks. sublist (str k) (toLowerCase (str ''Walmart Uber'')))) CATEGORY_KEYWORDS of
           None \<Rightarrow> str ''Uncategorized''
         | Some (c, ks) \<Rightarrow> str c) = str ''Groceries''"
  by code_simp

theorem categorize_tie_break_witness:
  "categorizeTransaction (str ''Walmart Uber'') Debit = str ''Groceries''"
  using categorize_first_match_in_table_order [of "str ''Walmart Uber''" Debit] tie_break_rhs
  by (simp only:)

section \<open>Properties of the AI extractor's validation\<close>

lemma scan_bol_later: "0 < i \<Longrightarrow> scan (Seq Bol r) i p cs = None"
  by (induction cs arbitrary: i p) auto

lemma includes_val_iff:
  "includes_val xs v \<longleftrightarrow> (\<exists>x \<in> set xs. v = Some (JStr (str x)))"
  by (auto simp: includes_val_def split: option.splits json.splits)

lemma not_number_or_negative_iff:
  "not_number_or_negative v \<longleftrightarrow> \<not> ((\<exists>a. v = Some (JNum a) \<and> 0 \<le> a) \<or> v = Some JInfinity)"
  by (cases v rule: not_number_or_negative.cases) auto

lemma date_test_converts: "date_test v \<Longrightarrow> \<not> conversion_throws v"
  by (induction v rule: date_test.induct) auto

lemma not_null_or_string_iff:
  "not_null_or_string v \<longleftrightarrow> \<not> (v = Some JNull \<or> (\<exists>s. v = Some (JStr s)))"
  by (cases v rule: not_null_or_string.cases) auto

lemma ymd_shape:
  "re_test ymd_re s \<longleftrightarrow>
     (\<exists>y1 y2 y3 y4 m1 m2 d1 d2. s = [y1, y2, y3, y4, 45, m1, m2, 45, d1, d2]
        \<and> is_digit y1 \<and> is_digit y2 \<and> is_digit y3 \<and> is_digit y4
        \<and> is_digit m1 \<and> is_digit m2 \<and> is_digit d1 \<and> is_digit d2)"
proof (cases s)
  case Nil
  then show ?thesis
    by (simp add: re_test_def match_first_def ymd_re_def digit_def lit_def str_def)
next
  case (Cons c cs)
  have later: "scan ymd_re (Suc 0) (Some c) cs = None"
    unfolding ymd_re_def seqs.simps by (rule scan_bol_later) simp
  show ?thesis
    unfolding re_test_def match_first_def Cons
    by (simp add: later split: list.splits option.splits)
       (simp add: ymd_re_def digit_def lit_def str_def split: list.splits)
qed

lemma date_string_shape:
  "date_test (JStr s) \<longleftrightarrow>
     (\<exists>y1 y2 y3 y4 m1 m2 d1 d2. s = [y1, y2, y3, y4, 45, m1, m2, 45, d1, d2]
        \<and> is_digit y1 \<and> is_digit y2 \<and> is_digit y3 \<and> is_digit y4
        \<and> is_digit m1 \<and> is_digit m2 \<and> is_digit d1 \<and> is_digit d2)"
  using ymd_shape [of s] by simp

lemmas schema_defs =
  type_in_or_out_def category_in_enum_def amount_number_not_negative_def date_null_or_ymd_def
  null_or_string_def date_conversion_throws_def

lemma validate_accepts_iff:
  "(\<exists>r. validate (JObj kvs) = Inr r) \<longleftrightarrow>
     type_in_or_out (JObj kvs) \<and> category_in_enum (JObj kvs) \<and> amount_number_not_negative (JObj kvs)
     \<and> date_null_or_ymd (JObj kvs) \<and> null_or_string (JObj kvs) ''sub_category''
     \<and> null_or_string (JObj kvs) ''note''"
  unfolding validate_def includes_val_iff not_null_or_string_iff not_number_or_negative_iff schema_defs
  by (auto split: option.splits json.splits dest: date_test_converts)

lemma validate_type_error:
  "\<not> type_in_or_out (JObj kvs) \<longrightarrow>
     validate (JObj kvs) = Inl (Error (str (''Invalid type - must be 'in' or 'out'' @ [CHR 0x27])))"
  unfolding validate_def includes_val_iff not_null_or_string_iff not_number_or_negative_iff schema_defs
  by (auto split: option.splits json.splits dest: date_test_converts)

lemma validate_category_error:
  "type_in_or_out (JObj kvs) \<and> \<not> category_in_enum (JObj kvs) \<longrightarrow>
     validate (JObj kvs) = Inl (Error (str ''Invalid category''))"
  unfolding validate_def includes_val_iff not_null_or_string_iff not_number_or_negative_iff schema_defs
  by (auto split: option.splits json.splits dest: date_test_converts)

lemma validate_amount_error:
  "type_in_or_out (JObj kvs) \<and> category_in_enum (JObj kvs) \<and> \<not> amount_number_not_negative (JObj kvs) \<longrightarrow>
     validate (JObj kvs) = Inl (Error (str ''Invalid amount - must be positive number''))"
  unfolding validate_def includes_val_iff not_null_or_string_iff not_number_or_negative_iff schema_defs
  by (auto split: option.splits json.splits dest: date_test_converts)

lemma validate_date_type_error:
  "type_in_or_out (JObj kvs) \<and> category_in_enum (JObj kvs) \<and> amount_number_not_negative (JObj kvs)
     \<and> date_conversion_throws (JObj kvs) \<longrightarrow>
     validate (JObj kvs) = Inl (TypeError (str ''Cannot convert object to primitive value''))"
  unfolding validate_def includes_val_iff not_null_or_string_iff not_number_or_negative_iff schema_defs
    not_primitive_def
  by (auto split: option.splits json.splits)

lemma validate_date_error:
  "type_in_or_out (JObj kvs) \<and> category_in_enum (JObj kvs) \<and> amount_number_not_negative (JObj kvs)
     \<and> \<not> date_conversion_throws (JObj kvs) \<and> \<not> date_null_or_ymd (JObj kvs) \<longrightarrow>
     validate (JObj kvs) = Inl (Error (str ''Invalid date format - must be YYYY-MM-DD''))"
  unfolding validate_def includes_val_iff not_null_or_string_iff not_number_or_negative_iff schema_defs
  by (auto split: option.splits json.splits dest: date_test_converts)

lemma validate_sub_category_error:
  "type_in_or_out (JObj kvs) \<and> category_in_enum (JObj kvs) \<and> amount_number_not_negative (JObj kvs)
     \<and> date_null_or_ymd (JObj kvs) \<and> \<not> null_or_string (JObj kvs) ''sub_category'' \<longrightarrow>
     validate (JObj kvs) = Inl (Error (str ''Invalid sub_category''))"
  unfolding validate_def includes_val_iff not_null_or_string_iff not_number_or_negative_iff schema_defs
  by (auto split: option.splits json.splits dest: date_test_converts)

lemma validate_note_error:
  "type_in_or_out (JObj kvs) \<and> category_in_enum (JObj kvs) \<and> amount_number_not_negative (JObj kvs)
     \<and> date_null_or_ymd (JObj kvs) \<and> null_or_string (JObj kvs) ''sub_category''
     \<and> \<not> null_or_string (JObj kvs) ''note'' \<longrightarrow>
     validate (JObj kvs) = Inl (Error (str ''Invalid note''))"
  unfolding validate_def includes_val_iff not_null_or_string_iff not_number_or_negative_iff schema_defs
  by (auto split: option.splits json.splits dest: date_test_converts)

lemma validate_null_sub_category:
  "validate (JObj kvs) = Inr r \<and> get_prop (JObj kvs) ''sub_category'' = Some JNull \<longrightarrow> r = JObj kvs"
  unfolding validate_def by (auto split: if_splits)

lemma validate_string_sub_category:
  "validate (JObj kvs) = Inr r \<and> get_prop (JObj kvs) ''sub_category'' = Some (JStr s) \<longrightarrow>
     r = set_prop (JObj kvs) ''sub_category'' (JStr (take 60 (toLowerCase s)))
     \<and> get_prop r ''sub_category'' = Some (JStr (take 60 (toLowerCase s)))
     \<and> length (take 60 (toLowerCase s)) \<le> 60
     \<and> (\<forall>k. str k \<noteq> str ''sub_category'' \<longrightarrow> get_prop r k = get_prop (JObj kvs) k)"
  unfolding validate_def
  by (auto simp: slice_def update_conv' split: if_splits)

lemma cats_13: "length cats = 13"
  by (simp add: cats_def)

lemma cats_distinct: "distinct cats"
  by (simp add: cats_def)

text \<open>
  What \<open>validate\<close> does with a parsed object. It accepts it exactly when \<open>type\<close> is \<open>in\<close> or
  \<open>out\<close>, \<open>category\<close> is one of the 13 values of \<open>cats\<close>, \<open>amount\<close> is a number that is not
  negative, \<open>date\<close> is \<open>null\<close> or passes the test against \<open>/^\d{4}-\d{2}-\d{2}$/\<close> (for a
  string: four digits, a hyphen, two digits, a hyphen, two digits), and \<open>sub_category\<close> and
  \<open>note\<close> are each \<open>null\<close> or a string. Otherwise it raises the error that names the first
  field, in this order, that fails its condition; only a \<open>date\<close> that cannot be converted
  to a string makes the test itself throw. An accepted record is returned as it came,
  except that a string \<open>sub_category\<close> is replaced by its lower-casing cut to its first 60
  code units.
\<close>

theorem validate_accepts_exactly_the_schema:
  "((\<exists>r. validate (JObj kvs) = Inr r) \<longleftrightarrow>
      type_in_or_out (JObj kvs) \<and> category_in_enum (JObj kvs) \<and> amount_number_not_negative (JObj kvs)
      \<and> date_null_or_ymd (JObj kvs) \<and> null_or_string (JObj kvs) ''sub_category''
      \<and> null_or_string (JObj kvs) ''note'')
   \<and> (\<not> type_in_or_out (JObj kvs) \<longrightarrow>
        validate (JObj kvs) = Inl (Error (str (''Invalid type - must be 'in' or 'out'' @ [CHR 0x27]))))
   \<and> (type_in_or_out (JObj kvs) \<and> \<not> category_in_enum (JObj kvs) \<longrightarrow>
        validate (JObj kvs) = Inl (Error (str ''Invalid category'')))
   \<and> (type_in_or_out (JObj kvs) \<and> category_in_enum (JObj kvs) \<and> \<not> amount_number_not_negative (JObj kvs) \<longrightarrow>
        validate (JObj kvs) = Inl (Error (str ''Invalid amount - must be positive number'')))
   \<and> (type_in_or_out (JObj kvs) \<and> category_in_enum (JObj kvs) \<and> amount_number_not_negative (JObj kvs)
        \<and> date_conversion_throws (JObj kvs) \<longrightarrow>
        validate (JObj kvs) = Inl (TypeError (str ''Cannot convert object to primitive value'')))
   \<and> (type_in_or_out (JObj kvs) \<and> category_in_enum (JObj kvs) \<and> amount_number_not_negative (JObj kvs)
        \<and> \<not> date_conversion_throws (JObj kvs) \<and> \<not> date_null_or_ymd (JObj kvs) \<longrightarrow>
        validate (JObj kvs) = Inl (Error (str ''Invalid date format - must be YYYY-MM-DD'')))
   \<and> (type_in_or_out (JObj kvs) \<and> category_in_enum (JObj kvs) \<and> amount_number_not_negative (JObj kvs)
        \<and> date_null_or_ymd (JObj kvs) \<and> \<not> null_or_string (JObj kvs) ''sub_category'' \<longrightarrow>
        validate (JObj kvs) = Inl (Error (str ''Invalid sub_category'')))
   \<and> (type_in_or_out (JObj kvs) \<and> category_in_enum (JObj kvs) \<and> amount_number_not_negative (JObj kvs)
        \<and> date_null_or_ymd (JObj kvs) \<and> null_or_string (JObj kvs) ''sub_category''
        \<and> \<not> null_or_string (JObj kvs) ''note'' \<longrightarrow>
        validate (JObj kvs) = Inl (Error (str ''Invalid note'')))
   \<and> (validate (JObj kvs) = Inr r \<and> get_prop (JObj kvs) ''sub_category'' = Some JNull \<longrightarrow> r = JObj kvs)
   \<and> (validate (JObj kvs) = Inr r \<and> get_prop (JObj kvs) ''sub_category'' = Some (JStr s) \<longrightarrow>
        r = set_prop (JObj kvs) ''sub_category'' (JStr (take 60 (toLowerCase s)))
        \<and> get_prop r ''sub_category'' = Some (JStr (take 60 (toLowerCase s)))
        \<and> length (take 60 (toLowerCase s)) \<le> 60
        \<and> (\<forall>k. str k \<noteq> str ''sub_category'' \<longrightarrow> get_prop r k = get_prop (JObj kvs) k))
   \<and> length cats = 13
   \<and> distinct cats
   \<and> (date_test (JStr d) \<longleftrightarrow>
        (\<exists>y1 y2 y3 y4 m1 m2 d1 d2. d = [y1, y2, y3, y4, 45, m1, m2, 45, d1, d2]
           \<and> is_digit y1 \<and> is_digit y2 \<and> is_digit y3 \<and> is_digit y4
           \<and> is_digit m1 \<and> is_digit m2 \<and> is_digit d1 \<and> is_digit d2))"
  by (intro conjI)
     (rule validate_accepts_iff validate_type_error validate_category_error validate_amount_error
        validate_date_type_error validate_date_error validate_sub_category_error validate_note_error
        validate_null_sub_category validate_string_sub_category cats_13 cats_distinct
        date_string_shape)+

lemma validate_example_schema:
  "type_in_or_out (JObj [(str ''date'', JStr (str ''2025-09-02'')), (str ''type'', JStr (str ''out'')),
      (str ''category'', JStr (str ''dining'')), (str ''sub_category'', JStr (str ''TIM Hortons'')),
      (str ''amount'', JNum (305 / 100)), (str ''note'', JNull)])
   \<and> category_in_enum (JObj [(str ''date'', JStr (str ''2025-09-02'')), (str ''type'', JStr (str ''out'')),
      (str ''category'', JStr (str ''dining'')), (str ''sub_category'', JStr (str ''TIM Hortons'')),
      (str ''amount'', JNum (305 / 100)), (str ''note'', JNull)])
   \<and> amount_number_not_negative (JObj [(str ''date'', JStr (str ''2025-09-02'')), (str ''type'', JStr (str ''out'')),
      (str ''category'', JStr (str ''dining'')), (str ''sub_category'', JStr (str ''TIM Hortons'')),
      (str ''amount'', JNum (305 / 100)), (str ''note'', JNull)])
   \<and> date_null_or_ymd (JObj [(str ''date'', JStr (str ''2025-09-02'')), (str ''type'', JStr (str ''out'')),
      (str ''category'', JStr (str ''dining'')), (str ''sub_category'', JStr (str ''TIM Hortons'')),
      (str ''amount'', JNum (305 / 100)), (str ''note'', JNull)])
   \<and> null_or_string (JObj [(str ''date'', JStr (str ''2025-09-02'')), (str ''type'', JStr (str ''out'')),
      (str ''category'', JStr (str ''dining'')), (str ''sub_category'', JStr (str ''TIM Hortons'')),
      (str ''amount'', JNum (305 / 100)), (str ''note'', JNull)]) ''sub_category''
   \<and> null_or_string (JObj [(str ''date'', JStr (str ''2025-09-02'')), (str ''type'', JStr (str ''out'')),
      (str ''category'', JStr (str ''dining'')), (str ''sub_category'', JStr (str ''TIM Hortons'')),
      (str ''amount'', JNum (305 / 100)), (str ''note'', JNull)]) ''note''"
proof -
  have "get_prop (JObj [(str ''date'', JStr (str ''2025-09-02'')), (str ''type'', JStr (str ''out'')),
      (str ''category'', JStr (str ''dining'')), (str ''sub_category'', JStr (str ''TIM Hortons'')),
      (str ''amount'', JNum (305 / 100)), (str ''note'', JNull)]) ''type'' = Some (JStr (str ''out''))"
    and "get_prop (JObj [(str ''date'', JStr (str ''2025-09-02'')), (str ''type'', JStr (str ''out'')),
      (str ''category'', JStr (str ''dining'')), (str ''sub_category'', JStr (str ''TIM Hortons'')),
      (str ''amount'', JNum (305 / 100)), (str ''note'', JNull)]) ''category'' = Some (JStr (str ''dining''))"
    and "get_prop (JObj [(str ''date'', JStr (str ''2025-09-02'')), (str ''type'', JStr (str ''out'')),
      (str ''category'', JStr (str ''dining'')), (str ''sub_category'', JStr (str ''TIM Hortons'')),
      (str ''amount'', JNum (305 / 100)), (str ''note'', JNull)]) ''amount'' = Some (JNum (305 / 100))"
    and "get_prop (JObj [(str ''date'', JStr (str ''2025-09-02'')), (str ''type'', JStr (str ''out'')),
      (str ''category'', JStr (str ''dining'')), (str ''sub_category'', JStr (str ''TIM Hortons'')),
      (str ''amount'', JNum (305 / 100)), (str ''note'', JNull)]) ''date'' = Some (JStr (str ''2025-09-02''))"
    and "get_prop (JObj [(str ''date'', JStr (str ''2025-09-02'')), (str ''type'', JStr (str ''out'')),
      (str ''category'', JStr (str ''dining'')), (str ''sub_category'', JStr (str ''TIM Hortons'')),
      (str ''amount'', JNum (305 / 100)), (str ''note'', JNull)]) ''sub_category'' = Some (JStr (str ''TIM Hortons''))"
    and "get_prop (JObj [(str ''date'', JStr (str ''2025-09-02'')), (str ''type'', JStr (str ''out'')),
      (str ''category'', JStr (str ''dining'')), (str ''sub_category'', JStr (str ''TIM Hortons'')),
      (str ''amount'', JNum (305 / 100)), (str ''note'', JNull)]) ''note'' = Some JNull"
    and "date_test (JStr (str ''2025-09-02''))"
    and "''dining'' \<in> set cats"
    by code_simp+
  moreover have "(0::rat) \<le> 305 / 100"
    by simp
  ultimately show ?thesis
    unfolding schema_defs by blast
qed

lemma validate_example_sub_category:
  "get_prop (JObj [(str ''date'', JStr (str ''2025-09-02'')), (str ''type'', JStr (str ''out'')),
      (str ''category'', JStr (str ''dining'')), (str ''sub_category'', JStr (str ''TIM Hortons'')),
      (str ''amount'', JNum (305 / 100)), (str ''note'', JNull)]) ''sub_category'' = Some (JStr (str ''TIM Hortons''))"
  by code_simp

lemma validate_example_normalised:
  "set_prop (JObj [(str ''date'', JStr (str ''2025-09-02'')), (str ''type'', JStr (str ''out'')),
      (str ''category'', JStr (str ''dining'')), (str ''sub_category'', JStr (str ''TIM Hortons'')),
      (str ''amount'', JNum (305 / 100)), (str ''note'', JNull)]) ''sub_category'' (JStr (take 60 (toLowerCase (str ''TIM Hortons''))))
   = JObj [(str ''date'', JStr (str ''2025-09-02'')), (str ''type'', JStr (str ''out'')),
      (str ''category'', JStr (str ''dining'')), (str ''sub_category'', JStr (str ''tim hortons'')),
      (str ''amount'', JNum (305 / 100)), (str ''note'', JNull)]"
  by code_simp

theorem validate_tim_hortons_witness:
  "validate (JObj [(str ''date'', JStr (str ''2025-09-02'')), (str ''type'', JStr (str ''out'')),
      (str ''category'', JStr (str ''dining'')), (str ''sub_category'', JStr (str ''TIM Hortons'')),
      (str ''amount'', JNum (305 / 100)), (str ''note'', JNull)]) = Inr (JObj [(str ''date'', JStr (str ''2025-09-02'')), (str ''type'', JStr (str ''out'')),
      (str ''category'', JStr (str ''dining'')), (str ''sub_category'', JStr (str ''tim hortons'')),
      (str ''amount'', JNum (305 / 100)), (str ''note'', JNull)])"
proof -
  have "\<exists>r. validate (JObj [(str ''date'', JStr (str ''2025-09-02'')), (str ''type'', JStr (str ''out'')),
      (str ''category'', JStr (str ''dining'')), (str ''sub_category'', JStr (str ''TIM Hortons'')),
      (str ''amount'', JNum (305 / 100)), (str ''note'', JNull)]) = Inr r"
    by (rule iffD2 [OF conjunct1 [OF validate_accepts_exactly_the_schema] validate_example_schema])
  then obtain r where r: "validate (JObj [(str ''date'', JStr (str ''2025-09-02'')), (str ''type'', JStr (str ''out'')),
      (str ''category'', JStr (str ''dining'')), (str ''sub_category'', JStr (str ''TIM Hortons'')),
      (str ''amount'', JNum (305 / 100)), (str ''note'', JNull)]) = Inr r" ..
  note normalised =
    validate_accepts_exactly_the_schema [of "[(str ''date'', JStr (str ''2025-09-02'')), (str ''type'', JStr (str ''out'')),
      (str ''category'', JStr (str ''dining'')), (str ''sub_category'', JStr (str ''TIM Hortons'')),
      (str ''amount'', JNum (305 / 100)), (str ''note'', JNull)]" r "str ''TIM Hortons''",
      THEN conjunct2, THEN conjunct2, THEN conjunct2, THEN conjunct2, THEN conjunct2,
      THEN conjunct2, THEN conjunct2, THEN conjunct2, THEN conjunct2, THEN conjunct1, THEN mp,
      OF conjI [OF r validate_example_sub_category], THEN conjunct1]
  from r show ?thesis
    unfolding normalised validate_example_normalised .
qed

text \<open>
  C2. A date that cannot be converted to a string. In this record \<open>type\<close>, \<open>category\<close> and
  \<open>amount\<close> pass their checks and the date is the object \<open>{"toString": null}\<close>. The test of
  the date pattern converts the date to a string first, and that throws: the error raised
  is the \<open>TypeError\<close> of the conversion, which names no field, and not
  \<open>Invalid date format - must be YYYY-MM-DD\<close>.
\<close>

theorem validate_date_object_type_error:
  "validate (JObj [(str ''date'', JObj [(str ''toString'', JNull)]), (str ''type'', JStr (str ''out'')),
      (str ''category'', JStr (str ''other'')), (str ''sub_category'', JNull),
      (str ''amount'', JNum 5), (str ''note'', JNull)])
   = Inl (TypeError (str ''Cannot convert object to primitive value''))
   \<and> error_string (TypeError (str ''Cannot convert object to primitive value''))
       = str ''TypeError: Cannot convert object to primitive value''"
  by code_simp

text \<open>
  C8. The amount check is \<open>rec.amount < 0\<close>: a record whose amount is \<open>0\<close> passes validation
  and is returned, although the error message of this very check reads
  \<open>must be positive number\<close>.
\<close>

theorem validate_accepts_amount_zero:
  "validate (JObj [(str ''date'', JNull), (str ''type'', JStr (str ''out'')),
      (str ''category'', JStr (str ''other'')), (str ''sub_category'', JNull),
      (str ''amount'', JNum 0), (str ''note'', JNull)])
   = Inr (JObj [(str ''date'', JNull), (str ''type'', JStr (str ''out'')),
      (str ''category'', JStr (str ''other'')), (str ''sub_category'', JNull),
      (str ''amount'', JNum 0), (str ''note'', JNull)])"
  by code_simp

section \<open>Properties of \<open>extractJson\<close>\<close>

lemma lit_single: "lit [c] = Seq (Chars (\<lambda>x. x = of_char c)) Eps"
  by (simp add: lit_def str_def)

lemma m_single:
  "m (Seq (Chars P) Eps) st =
     (case rest st of
        [] \<Rightarrow> []
      | c # cs \<Rightarrow> if P c then [st\<lparr>pos := Suc (pos st), prev := Some c, rest := cs\<rparr>] else [])"
  by (simp split: list.splits)

lemma m_closing_brace_at_end:
  "m (Seq (lit ''}'') Eol) st =
     (if rest st = [125] then [st\<lparr>pos := Suc (pos st), prev := Some 125, rest := []\<rparr>] else [])"
proof -
  have "m (Seq (lit ''}'') Eol) st = concat (map (m Eol) (m (Seq (Chars (\<lambda>x. x = 125)) Eps) st))"
    by (simp add: lit_single)
  also have "\<dots> = (if rest st = [125] then [st\<lparr>pos := Suc (pos st), prev := Some 125, rest := []\<rparr>] else [])"
    unfolding m_single by (cases "rest st") auto
  finally show ?thesis .
qed

lemma star_any_then_closing_brace:
  "length (rest st) \<le> n \<Longrightarrow>
   concat (map (m (Seq (lit ''}'') Eol)) (star (m anychar) n st)) =
     (if rest st \<noteq> [] \<and> last (rest st) = 125
      then [st\<lparr>pos := pos st + length (rest st), prev := Some 125, rest := []\<rparr>] else [])"
proof (induction n arbitrary: st)
  case 0
  then show ?case by (simp add: m_closing_brace_at_end del: m.simps)
next
  case (Suc n)
  show ?case
  proof (cases "rest st")
    case Nil
    have "m anychar st = []"
      by (simp add: anychar_def Nil)
    then show ?thesis by (simp add: m_closing_brace_at_end Nil del: m.simps)
  next
    case (Cons c cs)
    let ?st1 = "st\<lparr>pos := Suc (pos st), prev := Some c, rest := cs\<rparr>"
    have step: "m anychar st = [?st1]"
      by (simp add: anychar_def Cons)
    have "length (rest ?st1) \<le> n"
      using Suc.prems Cons by simp
    from Suc.IH [OF this] show ?thesis
      by (simp add: step m_closing_brace_at_end Cons del: m.simps)
  qed
qed

lemma m_json_re:
  "m json_re st =
     (case rest st of
        [] \<Rightarrow> []
      | c # cs \<Rightarrow>
          if c = 123 \<and> cs \<noteq> [] \<and> last cs = 125
          then [st\<lparr>pos := pos st + length (rest st), prev := Some 125, rest := []\<rparr>] else [])"
proof (cases "rest st")
  case Nil
  then show ?thesis by (simp add: json_re_def lit_def str_def)
next
  case (Cons c cs)
  have "m json_re st =
      (if c = 123
       then concat (map (m (Seq (lit ''}'') Eol))
              (star (m anychar) (length cs) (st\<lparr>pos := Suc (pos st), prev := Some c, rest := cs\<rparr>)))
       else [])"
    by (simp add: json_re_def Cons lit_single del: m.simps)
       (simp add: Cons)
  then show ?thesis
    by (simp add: star_any_then_closing_brace Cons del: m.simps)
qed

lemma scan_json_re:
  "scan json_re i p s =
     (if s \<noteq> [] \<and> last s = 125 \<and> 123 \<in> set s
      then Some (i + length (takeWhile (\<lambda>c. c \<noteq> 123) s),
                 \<lparr>pos = i + length s, prev = Some 125, rest = [], caps = []\<rparr>)
      else None)"
proof (induction s arbitrary: i p)
  case Nil
  then show ?case by (simp add: m_json_re)
next
  case (Cons c cs)
  show ?case
    by (cases "c = 123") (auto simp: m_json_re Cons.IH)
qed

lemma match_json_re:
  "match_first json_re s =
     (if s \<noteq> [] \<and> last s = 125 \<and> 123 \<in> set s
      then Some \<lparr>whole = dropWhile (\<lambda>c. c \<noteq> 123) s, groups = []\<rparr>
      else None)"
  by (simp add: match_first_def scan_json_re slice_def dropWhile_eq_drop)


text \<open>
  What \<open>extractJson\<close> computes. Its pattern is anchored at the end of the text
  (\<open>\}$\<close>). It finds a match exactly when the text holds a \<open>{\<close> (code unit 123) and its
  last code unit is \<open>}\<close> (125); the match then runs from the first \<open>{\<close> to the end of the
  text, and the result is what the strict parse of that substring gives, with the error
  \<open>Invalid JSON in response\<close> when the parse fails. In every other case the result is the
  error \<open>No JSON found in response\<close>. So commentary before the object is skipped, and any
  text after the closing \<open>}\<close> makes the extraction fail.
\<close>

theorem extractJson_first_brace_to_end_of_text:
  "extractJson JSON_parse s =
     (if 123 \<in> set s \<and> s \<noteq> [] \<and> last s = 125
      then (case JSON_parse (dropWhile (\<lambda>c. c \<noteq> 123) s) of
              None \<Rightarrow> Inl (Error (str ''Invalid JSON in response''))
            | Some v \<Rightarrow> Inr v)
      else Inl (Error (str ''No JSON found in response'')))
   \<and> (123 \<notin> set before \<longrightarrow>
        extractJson JSON_parse (before @ [123] @ body @ [125]) =
          (case JSON_parse ([123] @ body @ [125]) of
             None \<Rightarrow> Inl (Error (str ''Invalid JSON in response''))
           | Some v \<Rightarrow> Inr v))
   \<and> (after \<noteq> [] \<and> last after \<noteq> 125 \<longrightarrow>
        extractJson JSON_parse (s @ after) = Inl (Error (str ''No JSON found in response'')))"
proof -
  have general: "extractJson P t =
     (if 123 \<in> set t \<and> t \<noteq> [] \<and> last t = 125
      then (case P (dropWhile (\<lambda>c. c \<noteq> 123) t) of
              None \<Rightarrow> Inl (Error (str ''Invalid JSON in response''))
            | Some v \<Rightarrow> Inr v)
      else Inl (Error (str ''No JSON found in response'')))" for P t
    by (simp add: extractJson_def match_json_re)
  have "123 \<notin> set before \<Longrightarrow>
      dropWhile (\<lambda>c. c \<noteq> 123) (before @ [123] @ body @ [125]) = [123] @ body @ [125]"
    by (auto simp: dropWhile_append3)
  then show ?thesis
    by (simp add: general)
qed

lemma extractJson_example_text:
  "123 \<in> set (str ''Sure: {}'') \<and> str ''Sure: {}'' \<noteq> [] \<and> last (str ''Sure: {}'') = 125"
  "dropWhile (\<lambda>c. c \<noteq> 123) (str ''Sure: {}'') = str ''{}''"
  by code_simp+

theorem extractJson_leading_commentary_witness:
  "\<forall>JSON_parse. extractJson JSON_parse (str ''Sure: {}'') =
     (case JSON_parse (str ''{}'') of
        None \<Rightarrow> Inl (Error (str ''Invalid JSON in response''))
      | Some v \<Rightarrow> Inr v)"
  using extractJson_first_brace_to_end_of_text [of _ "str ''Sure: {}''", THEN conjunct1]
  by (simp only: extractJson_example_text if_True) simp

text \<open>The pattern finds nothing in \<open>{} ok\<close>: the text does not end with \<open>}\<close>.\<close>

lemma no_match_with_trailing_text: "match_first json_re (str ''{} ok'') = None"
  by code_simp

text \<open>
  C3. Commentary after the object is not tolerated. In \<open>{} ok\<close> the first \<open>{\<close> and the last
  \<open>}\<close> enclose the JSON text \<open>{}\<close>, yet whatever the parser does with it the result is the
  error \<open>No JSON found in response\<close>; the comments of the function read
  \<open>Extract the first JSON object from a model response safely\<close> and \<open>greedy to last }\<close>.
\<close>

theorem extractJson_trailing_commentary_not_found:
  "\<forall>JSON_parse. extractJson JSON_parse (str ''{} ok'') = Inl (Error (str ''No JSON found in response''))"
  by (simp add: extractJson_def no_match_with_trailing_text)

section \<open>Properties of the orchestrator\<close>

lemma structure_receipt_not_ok:
  "\<not> http_ok st \<longrightarrow>
     structure_receipt Date_iso today (Response st body) ocrText
       = Inr (legacy_structured Date_iso today ocrText)"
  by (simp add: structure_receipt_def)

lemma structure_receipt_invalid_result:
  "http_ok st \<and> (body = None \<or> (\<exists>v. body = Some v
       \<and> (\<not> truthy (get_prop v ''ok'') \<or> \<not> truthy (get_prop v ''record'')))) \<longrightarrow>
     structure_receipt Date_iso today (Response st body) ocrText
       = Inl (500, str ''Failed to structure receipt data'')"
  by (auto simp: structure_receipt_def structure_failed_def)

lemma structure_receipt_ok_ignores_legacy:
  "http_ok st \<longrightarrow>
     structure_receipt Date_iso today (Response st body) ocrText
       = structure_receipt Date_iso' today (Response st body) ocrText'"
  by (simp add: structure_receipt_def)

lemma structure_receipt_network_error:
  "structure_receipt Date_iso today NetworkError ocrText
     = Inl (500, str ''Failed to structure receipt data'')"
  by (simp add: structure_receipt_def structure_failed_def)

lemma http_ok_200: "http_ok 200"
  by (simp add: http_ok_def)

text \<open>
  C10. A response of the structuring service with an OK status (200 is one) whose body is
  no JSON, has a false \<open>ok\<close> or lacks a \<open>record\<close> does not lead to the legacy path: the
  caller receives status 500 with the error \<open>Failed to structure receipt data\<close>. The legacy
  path is taken exactly on a status that is not OK; with an OK status the outcome does
  not depend on the legacy parser or the OCR text at all. An exception of \<open>fetch\<close> gives
  the same 500 error.
\<close>

theorem fallback_only_on_non_ok_status:
  "(http_ok st \<and> (body = None \<or> (\<exists>v. body = Some v
        \<and> (\<not> truthy (get_prop v ''ok'') \<or> \<not> truthy (get_prop v ''record'')))) \<longrightarrow>
      structure_receipt Date_iso today (Response st body) ocrText
        = Inl (500, str ''Failed to structure receipt data''))
   \<and> (\<not> http_ok st \<longrightarrow>
        structure_receipt Date_iso today (Response st body) ocrText
          = Inr (legacy_structured Date_iso today ocrText))
   \<and> (http_ok st \<longrightarrow>
        structure_receipt Date_iso today (Response st body) ocrText
          = structure_receipt Date_iso' today (Response st body) ocrText')
   \<and> structure_receipt Date_iso today NetworkError ocrText
        = Inl (500, str ''Failed to structure receipt data'')
   \<and> http_ok 200"
  by (intro conjI)
     (rule structure_receipt_invalid_result structure_receipt_not_ok
        structure_receipt_ok_ignores_legacy structure_receipt_network_error http_ok_200)+

lemma ok_false_is_falsy:
  "\<not> truthy (get_prop (JObj [(str ''ok'', JBool False), (str ''error'', JStr (str ''Error: Invalid category''))]) ''ok'')"
  by code_simp

theorem ok_false_body_gives_500_witness:
  "\<forall>Date_iso today ocrText.
     structure_receipt Date_iso today
       (Response 200 (Some (JObj [(str ''ok'', JBool False),
                                  (str ''error'', JStr (str ''Error: Invalid category''))]))) ocrText
       = Inl (500, str ''Failed to structure receipt data'')"
proof (intro allI)
  fix Date_iso today ocrText
  let ?v = "JObj [(str ''ok'', JBool False), (str ''error'', JStr (str ''Error: Invalid category''))]"
  have "http_ok 200 \<and> (Some ?v = None \<or> (\<exists>v. Some ?v = Some v
          \<and> (\<not> truthy (get_prop v ''ok'') \<or> \<not> truthy (get_prop v ''record''))))"
    using http_ok_200 ok_false_is_falsy by blast
  then show "structure_receipt Date_iso today (Response 200 (Some ?v)) ocrText
       = Inl (500, str ''Failed to structure receipt data'')"
    by (rule fallback_only_on_non_ok_status [THEN conjunct1, THEN mp])
qed


lemma validate_object: "validate parsed = Inr r \<Longrightarrow> \<exists>kvs. parsed = JObj kvs"
  by (cases parsed) (auto simp: validate_def includes_val_def split: if_splits)

lemma validated_object: "validate parsed = Inr r \<Longrightarrow> \<exists>kvs. r = JObj kvs"
  by (cases parsed) (auto simp: validate_def includes_val_def split: if_splits option.splits json.splits)

lemma field_names_differ:
  "str ''date'' \<noteq> str ''sub_category''" "str ''type'' \<noteq> str ''sub_category''"
  "str ''category'' \<noteq> str ''sub_category''" "str ''amount'' \<noteq> str ''sub_category''"
  "str ''note'' \<noteq> str ''sub_category''"
  by (simp_all add: str_def)

lemma validated_fields:
  assumes "validate parsed = Inr r"
  shows "\<exists>d c a n.
      get_prop r ''date'' = Some d \<and> (d = JNull \<or> date_test d)
    \<and> (get_prop r ''type'' = Some (JStr (str ''in'')) \<or> get_prop r ''type'' = Some (JStr (str ''out'')))
    \<and> get_prop r ''category'' = Some (JStr (str c)) \<and> c \<in> set cats
    \<and> get_prop r ''amount'' = Some a \<and> ((\<exists>q. a = JNum q \<and> 0 \<le> q) \<or> a = JInfinity)
    \<and> get_prop r ''note'' = Some n \<and> (n = JNull \<or> (\<exists>s. n = JStr s))
    \<and> (get_prop r ''sub_category'' = Some JNull
        \<or> (\<exists>s. get_prop r ''sub_category'' = Some (JStr s) \<and> length s \<le> 60))"
proof -
  from assms obtain kvs where parsed: "parsed = JObj kvs"
    using validate_object by blast
  from assms have ex: "\<exists>r. validate (JObj kvs) = Inr r"
    unfolding parsed by blast
  note ok = validate_accepts_iff [THEN iffD1, OF ex, unfolded schema_defs]
  from ok obtain s0 where sub: "get_prop (JObj kvs) ''sub_category'' = Some JNull
      \<or> get_prop (JObj kvs) ''sub_category'' = Some (JStr s0)"
    by blast
  have same: "get_prop r k = get_prop (JObj kvs) k" if "str k \<noteq> str ''sub_category''" for k
  proof -
    from sub show ?thesis
    proof
      assume "get_prop (JObj kvs) ''sub_category'' = Some JNull"
      with assms validate_null_sub_category [of kvs r] show ?thesis
        unfolding parsed by blast
    next
      assume "get_prop (JObj kvs) ''sub_category'' = Some (JStr s0)"
      with assms validate_string_sub_category [of kvs r s0] that show ?thesis
        unfolding parsed by blast
    qed
  qed
  have sub_r: "get_prop r ''sub_category'' = Some JNull
        \<or> (\<exists>s. get_prop r ''sub_category'' = Some (JStr s) \<and> length s \<le> 60)"
    using sub
  proof
    assume "get_prop (JObj kvs) ''sub_category'' = Some JNull"
    with assms validate_null_sub_category [of kvs r] show ?thesis
      unfolding parsed by blast
  next
    assume "get_prop (JObj kvs) ''sub_category'' = Some (JStr s0)"
    with assms validate_string_sub_category [of kvs r s0] show ?thesis
      unfolding parsed by blast
  qed
  from ok sub_r show ?thesis
    unfolding same [OF field_names_differ(1)] same [OF field_names_differ(2)]
      same [OF field_names_differ(3)] same [OF field_names_differ(4)]
      same [OF field_names_differ(5)]
    by blast
qed

lemma date_test_truthy: "date_test d \<Longrightarrow> truthy (Some d)"
proof (cases d)
  case (JStr s)
  assume "date_test d"
  with JStr have "s \<noteq> []" using ymd_shape [of s] by auto
  with JStr show ?thesis by simp
qed auto

text \<open>What the JSON text of the response keeps of a record.\<close>

lemma get_prop_through_json:
  "get_prop (through_json (JObj kvs)) k = map_option through_json (get_prop (JObj kvs) k)"
  by (induction kvs) auto

lemma date_test_through_json: "date_test d \<Longrightarrow> through_json d = d"
  by (induction d rule: date_test.induct) auto

lemma handler_success:
  assumes "ocrText \<noteq> []" and "callGemini gemini (userPrompt ocrText) = Inr resp"
    and "extractJson JSON_parse resp = Inr parsed" and "validate parsed = Inr r"
  shows "structure_with_gemini JSON_parse gemini ocrText
           = Response 200 (Some (JObj [(str ''ok'', JBool True), (str ''record'', r)]))"
  using assms by (simp add: structure_with_gemini_def)

lemma handler_failure:
  assumes "callGemini gemini (userPrompt ocrText) = Inl e
     \<or> (callGemini gemini (userPrompt ocrText) = Inr resp
         \<and> (extractJson JSON_parse resp = Inl e
             \<or> (extractJson JSON_parse resp = Inr parsed \<and> validate parsed = Inl e)))"
  shows "\<exists>st body. structure_with_gemini JSON_parse gemini ocrText = Response st body \<and> \<not> http_ok st"
  using assms by (auto simp: structure_with_gemini_def error_response_def http_ok_def)

lemma accepted_result:
  assumes "validate parsed = Inr r"
  shows "structure_receipt Date_iso today
           (received Reachable
              (Response 200 (Some (JObj [(str ''ok'', JBool True), (str ''record'', r)])))) ocrText
         = Inr (ai_structured today (through_json r))"
proof -
  from validated_object [OF assms] obtain kvs where "r = JObj kvs" ..
  then have "truthy (Some (through_json r))" by simp
  moreover have "str ''ok'' \<noteq> str ''record''" by (simp add: str_def)
  ultimately show ?thesis
    by (simp add: structure_receipt_def received_def http_ok_def)
qed

lemma ai_structured_validated:
  assumes "validate parsed = Inr r"
  shows "\<exists>d c a n. get_prop r ''date'' = Some d \<and> get_prop r ''category'' = Some c
      \<and> get_prop r ''amount'' = Some a \<and> get_prop r ''note'' = Some n
      \<and> (get_prop r ''type'' = Some (JStr (str ''in'')) \<or> get_prop r ''type'' = Some (JStr (str ''out'')))
      \<and> ai_structured today (through_json r) =
          \<lparr>sd_date = (if d = JNull then JStr today else d),
           sd_type = (if get_prop r ''type'' = Some (JStr (str ''in'')) then str ''credit'' else str ''debit''),
           sd_category = Some c,
           sd_description =
             (case get_prop r ''sub_category'' of
                Some (JStr s) \<Rightarrow> if s = [] then JStr (str ''Transaction'') else JStr s
              | _ \<Rightarrow> JStr (str ''Transaction'')),
           sd_amount = Some (through_json a),
           sd_notes = Some n\<rparr>"
proof -
  from validated_object [OF assms] obtain kvs where r: "r = JObj kvs" ..
  from validated_fields [OF assms] obtain d c a n where f:
    "get_prop r ''date'' = Some d" "d = JNull \<or> date_test d"
    "get_prop r ''type'' = Some (JStr (str ''in'')) \<or> get_prop r ''type'' = Some (JStr (str ''out''))"
    "get_prop r ''category'' = Some (JStr (str c))"
    "get_prop r ''amount'' = Some a"
    "get_prop r ''note'' = Some n" "n = JNull \<or> (\<exists>s. n = JStr s)"
    "get_prop r ''sub_category'' = Some JNull
        \<or> (\<exists>s. get_prop r ''sub_category'' = Some (JStr s) \<and> length s \<le> 60)"
    by blast
  have fields: "get_prop (through_json r) k = map_option through_json (get_prop r k)" for k
    unfolding r by (rule get_prop_through_json)
  have d: "through_json d = d"
    using f(2) date_test_through_json [of d] by auto
  have n: "through_json n = n"
    using f(7) by auto
  have date: "or_else (Some d) (JStr today) = (if d = JNull then JStr today else d)"
    using f(2) date_test_truthy [of d] by (auto simp: or_else_def)
  have descr: "or_else (map_option through_json (get_prop r ''sub_category'')) (JStr (str ''Transaction'')) =
      (case get_prop r ''sub_category'' of
         Some (JStr s) \<Rightarrow> if s = [] then JStr (str ''Transaction'') else JStr s
       | _ \<Rightarrow> JStr (str ''Transaction''))"
    using f(8) by (auto simp: or_else_def)
  have type: "(map_option through_json (get_prop r ''type'') = Some (JStr (str ''in'')))
      = (get_prop r ''type'' = Some (JStr (str ''in'')))"
    using f(3) by auto
  show ?thesis
    using f(1,3,4,5,6) date descr type d n by (simp add: ai_structured_def fields)
qed

lemma legacy_structured_fields:
  "legacy_structured Date_iso today ocrText =
     \<lparr>sd_date = JStr (pt_date (parseReceiptText Date_iso today ocrText)),
      sd_type = direction_name (pt_type (parseReceiptText Date_iso today ocrText)),
      sd_category = Some (JStr (categorizeTransaction
                      (pt_description (parseReceiptText Date_iso today ocrText))
                      (pt_type (parseReceiptText Date_iso today ocrText)))),
      sd_description = JStr (pt_description (parseReceiptText Date_iso today ocrText)),
      sd_amount = Some (json_number (pt_amount (parseReceiptText Date_iso today ocrText))),
      sd_notes = Some JNull\<rparr>"
  by (simp add: legacy_structured_def Let_def)

lemma extract_accepted:
  assumes "ocrText \<noteq> []" "callGemini gemini (userPrompt ocrText) = Inr resp"
    "extractJson JSON_parse resp = Inr parsed" "validate parsed = Inr r"
  shows "extract_transaction Date_iso today JSON_parse gemini Reachable ocrText
    = Inr (ai_structured today (through_json r))"
  unfolding extract_transaction_def handler_success [OF assms] by (rule accepted_result [OF assms(4)])

lemma extract_success:
  "ocrText \<noteq> [] \<and> callGemini gemini (userPrompt ocrText) = Inr resp
     \<and> extractJson JSON_parse resp = Inr parsed \<and> validate parsed = Inr r
     \<and> get_prop r ''amount'' = Some (JNum a) \<longrightarrow>
   (\<exists>d c n. get_prop r ''date'' = Some d \<and> get_prop r ''category'' = Some c
      \<and> get_prop r ''note'' = Some n
      \<and> (get_prop r ''type'' = Some (JStr (str ''in'')) \<or> get_prop r ''type'' = Some (JStr (str ''out'')))
      \<and> extract_transaction Date_iso today JSON_parse gemini Reachable ocrText =
          Inr \<lparr>sd_date = (if d = JNull then JStr today else d),
               sd_type = (if get_prop r ''type'' = Some (JStr (str ''in'')) then str ''credit'' else str ''debit''),
               sd_category = Some c,
               sd_description =
                 (case get_prop r ''sub_category'' of
                    Some (JStr s) \<Rightarrow> if s = [] then JStr (str ''Transaction'') else JStr s
                  | _ \<Rightarrow> JStr (str ''Transaction'')),
               sd_amount = Some (JNum a),
               sd_notes = Some n\<rparr>)"
proof (intro impI, elim conjE)
  assume a: "ocrText \<noteq> []" "callGemini gemini (userPrompt ocrText) = Inr resp"
    "extractJson JSON_parse resp = Inr parsed" "validate parsed = Inr r"
    and amount: "get_prop r ''amount'' = Some (JNum a)"
  from ai_structured_validated [OF a(4), of today] obtain d c a' n where f:
    "get_prop r ''date'' = Some d" "get_prop r ''category'' = Some c"
    "get_prop r ''amount'' = Some a'" "get_prop r ''note'' = Some n"
    "get_prop r ''type'' = Some (JStr (str ''in'')) \<or> get_prop r ''type'' = Some (JStr (str ''out''))"
    "ai_structured today (through_json r) =
          \<lparr>sd_date = (if d = JNull then JStr today else d),
           sd_type = (if get_prop r ''type'' = Some (JStr (str ''in'')) then str ''credit'' else str ''debit''),
           sd_category = Some c,
           sd_description =
             (case get_prop r ''sub_category'' of
                Some (JStr s) \<Rightarrow> if s = [] then JStr (str ''Transaction'') else JStr s
              | _ \<Rightarrow> JStr (str ''Transaction'')),
           sd_amount = Some (through_json a'),
           sd_notes = Some n\<rparr>"
    by blast
  from f(3) amount have "a' = JNum a" by simp
  then have "through_json a' = JNum a" by simp
  with f(6) extract_accepted [OF a, of Date_iso today]
  have "extract_transaction Date_iso today JSON_parse gemini Reachable ocrText =
          Inr \<lparr>sd_date = (if d = JNull then JStr today else d),
               sd_type = (if get_prop r ''type'' = Some (JStr (str ''in'')) then str ''credit'' else str ''debit''),
               sd_category = Some c,
               sd_description =
                 (case get_prop r ''sub_category'' of
                    Some (JStr s) \<Rightarrow> if s = [] then JStr (str ''Transaction'') else JStr s
                  | _ \<Rightarrow> JStr (str ''Transaction'')),
               sd_amount = Some (JNum a),
               sd_notes = Some n\<rparr>"
    by simp
  with f(1,2,4,5) show "\<exists>d c n. get_prop r ''date'' = Some d \<and> get_prop r ''category'' = Some c
      \<and> get_prop r ''note'' = Some n
      \<and> (get_prop r ''type'' = Some (JStr (str ''in'')) \<or> get_prop r ''type'' = Some (JStr (str ''out'')))
      \<and> extract_transaction Date_iso today JSON_parse gemini Reachable ocrText =
          Inr \<lparr>sd_date = (if d = JNull then JStr today else d),
               sd_type = (if get_prop r ''type'' = Some (JStr (str ''in'')) then str ''credit'' else str ''debit''),
               sd_category = Some c,
               sd_description =
                 (case get_prop r ''sub_category'' of
                    Some (JStr s) \<Rightarrow> if s = [] then JStr (str ''Transaction'') else JStr s
                  | _ \<Rightarrow> JStr (str ''Transaction'')),
               sd_amount = Some (JNum a),
               sd_notes = Some n\<rparr>"
    by (intro exI conjI)
qed

lemma extract_failure:
  "callGemini gemini (userPrompt ocrText) = Inl e
     \<or> (callGemini gemini (userPrompt ocrText) = Inr resp
         \<and> (extractJson JSON_parse resp = Inl e
             \<or> (extractJson JSON_parse resp = Inr parsed \<and> validate parsed = Inl e))) \<longrightarrow>
   extract_transaction Date_iso today JSON_parse gemini Reachable ocrText
     = Inr (legacy_structured Date_iso today ocrText)"
proof
  assume "callGemini gemini (userPrompt ocrText) = Inl e
     \<or> (callGemini gemini (userPrompt ocrText) = Inr resp
         \<and> (extractJson JSON_parse resp = Inl e
             \<or> (extractJson JSON_parse resp = Inr parsed \<and> validate parsed = Inl e)))"
  from handler_failure [OF this] obtain st body where
    "structure_with_gemini JSON_parse gemini ocrText = Response st body" "\<not> http_ok st"
    by blast
  then show "extract_transaction Date_iso today JSON_parse gemini Reachable ocrText
     = Inr (legacy_structured Date_iso today ocrText)"
    by (simp add: extract_transaction_def structure_receipt_def received_def)
qed

lemma extract_unreachable:
  "extract_transaction Date_iso today JSON_parse gemini Unreachable ocrText
     = Inl (500, str ''Failed to structure receipt data'')"
  by (simp add: extract_transaction_def received_def structure_receipt_def structure_failed_def)

text \<open>
  C1 (amended). When the request to the AI extractor is answered, the orchestrator takes
  one path in full. When the AI extractor succeeds with the validated record \<open>r\<close>, whose
  amount is a finite number, the output is: the date of \<open>r\<close>, or today when it is \<open>null\<close>;
  \<open>credit\<close> for type \<open>in\<close> and \<open>debit\<close> for type \<open>out\<close>; the category, amount and note of
  \<open>r\<close>; and as description the \<open>sub_category\<close> of \<open>r\<close> when it is a string that is not
  empty, \<open>Transaction\<close> otherwise. When the AI extractor fails (the backend call, the JSON
  extraction or the validation raises, which the function answers with status 500), every
  field comes from the legacy parser, the category from the keyword categorizer on its
  description and type, and the notes are \<open>null\<close>. When the request itself fails, there is
  no transaction: the caller receives status 500 with \<open>Failed to structure receipt data\<close>.
\<close>

theorem extract_takes_one_path_in_full:
  "(ocrText \<noteq> [] \<and> callGemini gemini (userPrompt ocrText) = Inr resp
     \<and> extractJson JSON_parse resp = Inr parsed \<and> validate parsed = Inr r
     \<and> get_prop r ''amount'' = Some (JNum a) \<longrightarrow>
    (\<exists>d c n. get_prop r ''date'' = Some d \<and> get_prop r ''category'' = Some c
      \<and> get_prop r ''note'' = Some n
      \<and> (get_prop r ''type'' = Some (JStr (str ''in'')) \<or> get_prop r ''type'' = Some (JStr (str ''out'')))
      \<and> extract_transaction Date_iso today JSON_parse gemini Reachable ocrText =
          Inr \<lparr>sd_date = (if d = JNull then JStr today else d),
               sd_type = (if get_prop r ''type'' = Some (JStr (str ''in'')) then str ''credit'' else str ''debit''),
               sd_category = Some c,
               sd_description =
                 (case get_prop r ''sub_category'' of
                    Some (JStr s) \<Rightarrow> if s = [] then JStr (str ''Transaction'') else JStr s
                  | _ \<Rightarrow> JStr (str ''Transaction'')),
               sd_amount = Some (JNum a),
               sd_notes = Some n\<rparr>))
   \<and> (callGemini gemini (userPrompt ocrText) = Inl e
       \<or> (callGemini gemini (userPrompt ocrText) = Inr resp
           \<and> (extractJson JSON_parse resp = Inl e
               \<or> (extractJson JSON_parse resp = Inr parsed \<and> validate parsed = Inl e))) \<longrightarrow>
       extract_transaction Date_iso today JSON_parse gemini Reachable ocrText
         = Inr (legacy_structured Date_iso today ocrText))
   \<and> legacy_structured Date_iso today ocrText =
       \<lparr>sd_date = JStr (pt_date (parseReceiptText Date_iso today ocrText)),
        sd_type = direction_name (pt_type (parseReceiptText Date_iso today ocrText)),
        sd_category = Some (JStr (categorizeTransaction
                        (pt_description (parseReceiptText Date_iso today ocrText))
                        (pt_type (parseReceiptText Date_iso today ocrText)))),
        sd_description = JStr (pt_description (parseReceiptText Date_iso today ocrText)),
        sd_amount = Some (json_number (pt_amount (parseReceiptText Date_iso today ocrText))),
        sd_notes = Some JNull\<rparr>
   \<and> extract_transaction Date_iso today JSON_parse gemini Unreachable ocrText
       = Inl (500, str ''Failed to structure receipt data'')"
  by (intro conjI)
     (rule extract_success extract_failure legacy_structured_fields extract_unreachable)+

lemma example_call:
  "callGemini example_gemini (userPrompt (str ''VISA FX CONVERSION FEE 2025/09/10  $1.23'')) = Inr example_answer"
  unfolding callGemini_def example_gemini_def by code_simp

lemma example_extractJson: "extractJson example_parse example_answer = Inr example_record"
  by code_simp

lemma example_validate: "validate example_record = Inr example_record"
  by code_simp

lemma example_fields:
  "get_prop example_record ''date'' = Some (JStr (str ''2025-09-10''))"
  "get_prop example_record ''category'' = Some (JStr (str ''fees''))"
  "get_prop example_record ''amount'' = Some (JNum (123 / 100))"
  "get_prop example_record ''note'' = Some (JStr (str ''conversion fee''))"
  "get_prop example_record ''type'' = Some (JStr (str ''out''))"
  "get_prop example_record ''sub_category'' = Some JNull"
  "str ''out'' \<noteq> str ''in''"
  "str ''VISA FX CONVERSION FEE 2025/09/10  $1.23'' \<noteq> []"
  by code_simp+

theorem extract_fourth_example_witness:
  "\<forall>Date_iso today.
     extract_transaction Date_iso today example_parse example_gemini Reachable
         (str ''VISA FX CONVERSION FEE 2025/09/10  $1.23'')
       = Inr \<lparr>sd_date = JStr (str ''2025-09-10''), sd_type = str ''debit'',
              sd_category = Some (JStr (str ''fees'')), sd_description = JStr (str ''Transaction''),
              sd_amount = Some (JNum (123 / 100)), sd_notes = Some (JStr (str ''conversion fee''))\<rparr>"
proof (intro allI)
  fix Date_iso today
  note success = extract_takes_one_path_in_full [THEN conjunct1, THEN mp,
      OF conjI [OF example_fields(8) conjI [OF example_call conjI [OF example_extractJson
        conjI [OF example_validate example_fields(3)]]]],
      of Date_iso today]
  then obtain d c n where
    "get_prop example_record ''date'' = Some d" "get_prop example_record ''category'' = Some c"
    "get_prop example_record ''note'' = Some n"
    and out: "extract_transaction Date_iso today example_parse example_gemini Reachable
         (str ''VISA FX CONVERSION FEE 2025/09/10  $1.23'') =
          Inr \<lparr>sd_date = (if d = JNull then JStr today else d),
               sd_type = (if get_prop example_record ''type'' = Some (JStr (str ''in'')) then str ''credit'' else str ''debit''),
               sd_category = Some c,
               sd_description =
                 (case get_prop example_record ''sub_category'' of
                    Some (JStr s) \<Rightarrow> if s = [] then JStr (str ''Transaction'') else JStr s
                  | _ \<Rightarrow> JStr (str ''Transaction'')),
               sd_amount = Some (JNum (123 / 100)),
               sd_notes = Some n\<rparr>"
    by blast
  then have "d = JStr (str ''2025-09-10'')" "c = JStr (str ''fees'')"
    "n = JStr (str ''conversion fee'')"
    by (simp_all only: example_fields option.inject)
  with out show "extract_transaction Date_iso today example_parse example_gemini Reachable
         (str ''VISA FX CONVERSION FEE 2025/09/10  $1.23'')
       = Inr \<lparr>sd_date = JStr (str ''2025-09-10''), sd_type = str ''debit'',
              sd_category = Some (JStr (str ''fees'')), sd_description = JStr (str ''Transaction''),
              sd_amount = Some (JNum (123 / 100)), sd_notes = Some (JStr (str ''conversion fee''))\<rparr>"
    using example_fields(7)
    by (simp only: example_fields option.inject json.inject json.distinct if_False
          option.case json.case)
qed

text \<open>
  The claim as stated fails for a record whose \<open>sub_category\<close> is the empty string: the
  record passes validation with that string present, and the description is
  \<open>Transaction\<close>, not the string. It fails as well when the request cannot be sent:
  then neither path is taken.
\<close>

lemma empty_sub_category_validates:
  "validate (JObj [(str ''date'', JStr (str ''2025-09-10'')), (str ''type'', JStr (str ''out'')),
          (str ''category'', JStr (str ''fees'')), (str ''sub_category'', JStr []),
          (str ''amount'', JNum (123 / 100)), (str ''note'', JNull)]) = Inr (JObj [(str ''date'', JStr (str ''2025-09-10'')), (str ''type'', JStr (str ''out'')),
          (str ''category'', JStr (str ''fees'')), (str ''sub_category'', JStr []),
          (str ''amount'', JNum (123 / 100)), (str ''note'', JNull)])"
  by code_simp

lemma empty_sub_category_present:
  "get_prop (JObj [(str ''date'', JStr (str ''2025-09-10'')), (str ''type'', JStr (str ''out'')),
          (str ''category'', JStr (str ''fees'')), (str ''sub_category'', JStr []),
          (str ''amount'', JNum (123 / 100)), (str ''note'', JNull)]) ''sub_category'' = Some (JStr [])"
  by code_simp

lemma empty_sub_category_structured:
  "ai_structured today (through_json (JObj [(str ''date'', JStr (str ''2025-09-10'')), (str ''type'', JStr (str ''out'')),
          (str ''category'', JStr (str ''fees'')), (str ''sub_category'', JStr []),
          (str ''amount'', JNum (123 / 100)), (str ''note'', JNull)])) =
     \<lparr>sd_date = JStr (str ''2025-09-10''), sd_type = str ''debit'',
      sd_category = Some (JStr (str ''fees'')), sd_description = JStr (str ''Transaction''),
      sd_amount = Some (JNum (123 / 100)), sd_notes = Some JNull\<rparr>"
  by code_simp

theorem empty_sub_category_counterexample:
  "validate (JObj [(str ''date'', JStr (str ''2025-09-10'')), (str ''type'', JStr (str ''out'')),
          (str ''category'', JStr (str ''fees'')), (str ''sub_category'', JStr []),
          (str ''amount'', JNum (123 / 100)), (str ''note'', JNull)]) = Inr (JObj [(str ''date'', JStr (str ''2025-09-10'')), (str ''type'', JStr (str ''out'')),
          (str ''category'', JStr (str ''fees'')), (str ''sub_category'', JStr []),
          (str ''amount'', JNum (123 / 100)), (str ''note'', JNull)])
   \<and> get_prop (JObj [(str ''date'', JStr (str ''2025-09-10'')), (str ''type'', JStr (str ''out'')),
          (str ''category'', JStr (str ''fees'')), (str ''sub_category'', JStr []),
          (str ''amount'', JNum (123 / 100)), (str ''note'', JNull)]) ''sub_category'' = Some (JStr [])
   \<and> (\<forall>Date_iso today ocrText.
        structure_receipt Date_iso today
          (received Reachable (Response 200 (Some (JObj [(str ''ok'', JBool True), (str ''record'', JObj [(str ''date'', JStr (str ''2025-09-10'')), (str ''type'', JStr (str ''out'')),
          (str ''category'', JStr (str ''fees'')), (str ''sub_category'', JStr []),
          (str ''amount'', JNum (123 / 100)), (str ''note'', JNull)])])))) ocrText
        = Inr \<lparr>sd_date = JStr (str ''2025-09-10''), sd_type = str ''debit'',
               sd_category = Some (JStr (str ''fees'')), sd_description = JStr (str ''Transaction''),
               sd_amount = Some (JNum (123 / 100)), sd_notes = Some JNull\<rparr>)
   \<and> (\<forall>Date_iso today JSON_parse gemini ocrText.
        extract_transaction Date_iso today JSON_parse gemini Unreachable ocrText
          = Inl (500, str ''Failed to structure receipt data''))"
  using empty_sub_category_validates empty_sub_category_present
    accepted_result [OF empty_sub_category_validates] extract_unreachable
  by (simp only: empty_sub_category_structured simp_thms)

text \<open>
  Outside the amended claim: an amount beyond the range of the doubles. \<open>JSON.parse\<close> reads
  \<open>1e400\<close> as \<open>Infinity\<close>, which is a number and not below \<open>0\<close>, so the record passes
  validation; on its way to the orchestrator the amount becomes \<open>null\<close>.
\<close>

lemma infinite_amount_arrives_as_null:
  "validate (JObj [(str ''date'', JNull), (str ''type'', JStr (str ''out'')),
      (str ''category'', JStr (str ''other'')), (str ''sub_category'', JNull),
      (str ''amount'', JInfinity), (str ''note'', JNull)])
   = Inr (JObj [(str ''date'', JNull), (str ''type'', JStr (str ''out'')),
      (str ''category'', JStr (str ''other'')), (str ''sub_category'', JNull),
      (str ''amount'', JInfinity), (str ''note'', JNull)])
   \<and> sd_amount (ai_structured today (through_json (JObj [(str ''date'', JNull), (str ''type'', JStr (str ''out'')),
      (str ''category'', JStr (str ''other'')), (str ''sub_category'', JNull),
      (str ''amount'', JInfinity), (str ''note'', JNull)]))) = Some JNull"
  by code_simp

section \<open>Properties of \<open>extractAmount\<close>\<close>

lemma math_max_Max: "xs \<noteq> [] \<Longrightarrow> math_max xs = Max (set xs)"
  by (cases xs) (simp_all only: math_max.simps Max.set_eq_fold)

lemma total_line_amount_find:
  "total_line_amount lines =
     map_option extractNumberFromLine
       (find (\<lambda>line. is_total_line line \<and> 0 < extractNumberFromLine line) lines)"
  by (induction lines) simp_all

lemma currency_amount_set:
  "set (currency_amount mt) =
     {a. 0 < a \<and> parseFloat (filter (\<lambda>c. c \<noteq> 44) (group mt 1)) = Some a}"
  by (auto simp: currency_amount_def Let_def split: option.splits)

lemma currency_amounts_set:
  "set (currency_amounts text) =
     {a. 0 < a \<and> (\<exists>pattern \<in> set currencyPatterns. \<exists>mt \<in> set (match_all pattern text 0).
                      parseFloat (filter (\<lambda>c. c \<noteq> 44) (group mt 1)) = Some a)}"
  by (auto simp: currency_amounts_def currency_amount_set)

lemma is_total_line_iff:
  "is_total_line line \<longleftrightarrow>
     sublist (str ''total'') (toLowerCase line) \<or> sublist (str ''amount'') (toLowerCase line)
     \<or> sublist (str ''balance'') (toLowerCase line)"
  by (simp add: is_total_line_def includes_str_def Let_def)

lemma extractAmount_currency:
  "currency_amounts text \<noteq> [] \<longrightarrow>
     extractAmount text lines = Max (set (currency_amounts text)) \<and> 0 < extractAmount text lines"
proof
  assume ne: "currency_amounts text \<noteq> []"
  then have eq: "extractAmount text lines = Max (set (currency_amounts text))"
    by (simp add: extractAmount_def math_max_Max)
  from ne have "Max (set (currency_amounts text)) \<in> set (currency_amounts text)"
    by (intro Max_in) simp_all
  then have "0 < Max (set (currency_amounts text))"
    unfolding currency_amounts_set by blast
  with eq show "extractAmount text lines = Max (set (currency_amounts text)) \<and> 0 < extractAmount text lines"
    by simp
qed

lemma extractAmount_total_line:
  "currency_amounts text = []
     \<and> find (\<lambda>line. is_total_line line \<and> 0 < extractNumberFromLine line) lines = Some line \<longrightarrow>
   extractAmount text lines = extractNumberFromLine line \<and> 0 < extractNumberFromLine line"
  by (auto simp: extractAmount_def total_line_amount_find dest: find_Some_iff [THEN iffD1])

lemma extractAmount_bare_numbers:
  "currency_amounts text = []
     \<and> find (\<lambda>line. is_total_line line \<and> 0 < extractNumberFromLine line) lines = None
     \<and> filter (\<lambda>n. 0 < n \<and> n < Finite 100000) (extractAllNumbers text) \<noteq> [] \<longrightarrow>
   extractAmount text lines = Max {n \<in> set (extractAllNumbers text). 0 < n \<and> n < Finite 100000}"
  by (simp add: extractAmount_def total_line_amount_find math_max_Max Let_def)

lemma extractAmount_nothing:
  "currency_amounts text = []
     \<and> find (\<lambda>line. is_total_line line \<and> 0 < extractNumberFromLine line) lines = None
     \<and> filter (\<lambda>n. 0 < n \<and> n < Finite 100000) (extractAllNumbers text) = [] \<longrightarrow>
   extractAmount text lines = 0"
  by (simp add: extractAmount_def total_line_amount_find Let_def)

text \<open>
  Numbers are read as doubles: \<open>45.67\<close> is the double next to it, and
  \<open>99999.99999999999999\<close> is read as \<open>100000\<close>, which is not below the bound of the last
  stage, so the amount of that text is \<open>0\<close>.
\<close>

lemma parseFloat_nearest_double:
  "parseFloat (str ''45.67'') = Some (Finite (3213740546593915 / 70368744177664))"
  "parseFloat (str ''99999.99999999999999'') = Some (Finite 100000)"
  "extractAmount (str ''99999.99999999999999'') (receipt_lines (str ''99999.99999999999999'')) = 0"
  by code_simp+

text \<open>
  C4. A currency amount of four digits written without a comma. The pattern
  \<open>\$(\d{1,3}(?:,\d{3})*(?:\.\d{2})?)\<close> takes at most three digits before the first comma
  or point, so in \<open>$1234.56\<close> its only match is \<open>$123\<close>, and the amount of the text is
  \<open>123\<close>, not \<open>1234.56\<close>, the currency-prefixed number that the text carries.
\<close>

theorem extractAmount_four_digit_currency_amount:
  "map whole (concat (map (\<lambda>pattern. match_all pattern (str ''$1234.56'') 0) currencyPatterns))
     = [str ''$123'']
   \<and> extractAmount (str ''$1234.56'') (receipt_lines (str ''$1234.56'')) = Finite 123"
  by code_simp

section \<open>Properties of the matcher\<close>

lemma advance_0 [simp]: "advance 0 st = st"
  by (simp add: advance_def)

lemma advance_fields [simp]:
  "pos (advance k st) = pos st + k"
  "rest (advance k st) = drop k (rest st)"
  "caps (advance k st) = caps st"
  by (simp_all add: advance_def)

lemma m_chars_seq:
  "m (foldr (\<lambda>c r. Seq (Chars (Q c)) r) n Eps) st =
     (if length n \<le> length (rest st) \<and> list_all2 Q n (take (length n) (rest st))
      then [advance (length n) st] else [])"
proof (induction n arbitrary: st)
  case Nil
  then show ?case by simp
next
  case (Cons c n)
  show ?case
  proof (cases "rest st")
    case Nil
    then show ?thesis by simp
  next
    case (Cons x xs)
    let ?st1 = "st\<lparr>pos := Suc (pos st), prev := Some x, rest := xs\<rparr>"
    have adv: "advance (length n) ?st1 = advance (Suc (length n)) st"
      by (cases n) (simp_all add: advance_def Cons)
    show ?thesis
      using Cons.IH [of ?st1] by (simp add: Cons adv)
  qed
qed

lemma list_all2_lower:
  "list_all2 (\<lambda>c x. lower_unit x = lower_unit c) n w \<longleftrightarrow> map lower_unit w = map lower_unit n"
  by (induction n arbitrary: w) (auto simp: list_all2_Cons1)

lemma m_liti:
  "m (liti n) st =
     (if length n \<le> length (rest st) \<and> ci_eq (take (length n) (rest st)) (str n)
      then [advance (length n) st] else [])"
  unfolding liti_def using m_chars_seq [of "\<lambda>c x. lower_unit x = lower_unit c" "str n" st]
  by (simp add: list_all2_lower ci_eq_def str_def)

lemma list_all2_same:
  "list_all2 (\<lambda>c x. x = c) n w \<longleftrightarrow> w = n"
  by (induction n arbitrary: w) (auto simp: list_all2_Cons1)

lemma m_lit:
  "m (lit n) st =
     (if length n \<le> length (rest st) \<and> take (length n) (rest st) = str n
      then [advance (length n) st] else [])"
  unfolding lit_def using m_chars_seq [of "\<lambda>c x. x = c" "str n" st]
  by (simp add: list_all2_same str_def)

lemma m_alts: "rs \<noteq> [] \<Longrightarrow> m (alts rs) st = concat (map (\<lambda>r. m r st) rs)"
  by (induction rs rule: alts.induct) simp_all



lemma state_at_0: "state_at i p cs 0 = \<lparr>pos = i, prev = p, rest = cs, caps = []\<rparr>"
  by (simp add: state_at_def)

lemma state_at_Suc: "state_at i p (c # cs) (Suc k) = state_at (Suc i) (Some c) cs k"
  by (cases k) (simp_all add: state_at_def)

lemma all_le_Suc_split: "(\<forall>k \<le> Suc n. P k) \<longleftrightarrow> P 0 \<and> (\<forall>k \<le> n. P (Suc k))"
proof safe
  fix k assume "P 0" "\<forall>k \<le> n. P (Suc k)" "k \<le> Suc n"
  then show "P k" by (cases k) auto
qed auto

lemma scan_None_iff:
  "scan r i p cs = None \<longleftrightarrow> (\<forall>k \<le> length cs. m r (state_at i p cs k) = [])"
proof (induction cs arbitrary: i p)
  case Nil
  then show ?case by (simp add: state_at_0 split: list.splits)
next
  case (Cons c cs)
  show ?case
    unfolding length_Cons all_le_Suc_split
    by (simp add: Cons.IH state_at_Suc state_at_0 split: list.splits)
qed

lemma scan_Some:
  "scan r i p cs = Some (j, st) \<Longrightarrow>
     \<exists>k \<le> length cs. j = i + k \<and> (\<exists>sts. m r (state_at i p cs k) = st # sts)
        \<and> (\<forall>k' < k. m r (state_at i p cs k') = [])"
proof (induction cs arbitrary: i p)
  case Nil
  then show ?case by (auto simp: state_at_0 split: list.splits)
next
  case (Cons c cs)
  show ?case
  proof (cases "m r \<lparr>pos = i, prev = p, rest = c # cs, caps = []\<rparr>")
    case Nil
    with Cons.prems have "scan r (Suc i) (Some c) cs = Some (j, st)" by simp
    from Cons.IH [OF this] obtain k sts where k: "k \<le> length cs" "j = Suc i + k"
      "m r (state_at (Suc i) (Some c) cs k) = st # sts"
      "\<forall>k' < k. m r (state_at (Suc i) (Some c) cs k') = []"
      by blast
    have "\<forall>k' < Suc k. m r (state_at i p (c # cs) k') = []"
    proof (intro allI impI)
      fix k' assume "k' < Suc k"
      then show "m r (state_at i p (c # cs) k') = []"
        using k(4) Nil by (cases k') (simp_all add: state_at_0 state_at_Suc)
    qed
    with k show ?thesis
      by (intro exI [of _ "Suc k"]) (simp add: state_at_Suc)
  next
    case (Cons st' sts)
    with Cons.prems show ?thesis
      by (intro exI [of _ 0]) (simp add: state_at_0)
  qed
qed


lemma ci_eq_length: "ci_eq a b \<Longrightarrow> length a = length b"
  unfolding ci_eq_def by (metis length_map)

lemma in_m_alts_liti:
  assumes "names \<noteq> []"
  shows "st' \<in> set (m (alts (map liti names)) st) \<longleftrightarrow>
     (\<exists>n \<in> set names. length n \<le> length (rest st) \<and> ci_eq (take (length n) (rest st)) (str n)
        \<and> st' = advance (length n) st)"
  using assms by (auto simp: m_alts m_liti split: if_splits)

lemma in_m_group_alts:
  assumes "names \<noteq> []"
  shows "st' \<in> set (m (Group g (alts (map liti names))) st) \<longleftrightarrow>
     (\<exists>n \<in> set names. length n \<le> length (rest st) \<and> ci_eq (take (length n) (rest st)) (str n)
        \<and> st' = (advance (length n) st)\<lparr>caps := (g, take (length n) (rest st)) # caps st\<rparr>)"
proof
  assume "st' \<in> set (m (Group g (alts (map liti names))) st)"
  then obtain st1 where st1: "st1 \<in> set (m (alts (map liti names)) st)"
    and st': "st' = st1\<lparr>caps := (g, take (pos st1 - pos st) (rest st)) # caps st1\<rparr>"
    by auto
  from st1 obtain n where n: "n \<in> set names" "length n \<le> length (rest st)"
    "ci_eq (take (length n) (rest st)) (str n)" "st1 = advance (length n) st"
    unfolding in_m_alts_liti [OF assms] by blast
  from st' n(4) have "st' = (advance (length n) st)\<lparr>caps := (g, take (length n) (rest st)) # caps st\<rparr>"
    by simp
  with n show "\<exists>n \<in> set names. length n \<le> length (rest st) \<and> ci_eq (take (length n) (rest st)) (str n)
        \<and> st' = (advance (length n) st)\<lparr>caps := (g, take (length n) (rest st)) # caps st\<rparr>"
    by blast
next
  assume "\<exists>n \<in> set names. length n \<le> length (rest st) \<and> ci_eq (take (length n) (rest st)) (str n)
        \<and> st' = (advance (length n) st)\<lparr>caps := (g, take (length n) (rest st)) # caps st\<rparr>"
  then obtain n where n: "n \<in> set names" "length n \<le> length (rest st)"
    "ci_eq (take (length n) (rest st)) (str n)"
    "st' = (advance (length n) st)\<lparr>caps := (g, take (length n) (rest st)) # caps st\<rparr>"
    by blast
  then have "advance (length n) st \<in> set (m (alts (map liti names)) st)"
    unfolding in_m_alts_liti [OF assms] by blast
  then have "(advance (length n) st)\<lparr>caps := (g, take (pos (advance (length n) st) - pos st) (rest st))
        # caps (advance (length n) st)\<rparr> \<in> set (m (Group g (alts (map liti names))) st)"
    by (simp del: advance_fields)
  then show "st' \<in> set (m (Group g (alts (map liti names))) st)"
    using n(4) by simp
qed

lemma star_nonempty: "star f n st \<noteq> []"
  by (cases n) simp_all

lemma star_caps:
  assumes "\<And>st st'. st' \<in> set (f st) \<Longrightarrow> caps st' = caps st"
  shows "st' \<in> set (star f n st) \<Longrightarrow> caps st' = caps st"
proof (induction n arbitrary: st)
  case 0
  then show ?case by simp
next
  case (Suc n)
  then show ?case using assms by auto
qed

lemma m_space:
  "m space st =
     (case rest st of
        [] \<Rightarrow> []
      | c # cs \<Rightarrow> if is_space c then [st\<lparr>pos := Suc (pos st), prev := Some c, rest := cs\<rparr>] else [])"
  by (simp add: space_def)

lemma m_many1_space_nonempty:
  "m (many1 space) st \<noteq> [] \<longleftrightarrow> (\<exists>c cs. rest st = c # cs \<and> is_space c)"
  unfolding many1_def
  by (cases "rest st") (auto simp: m_space star_nonempty simp del: star.simps)

lemma m_many1_space_caps:
  "st' \<in> set (m (many1 space) st) \<Longrightarrow> caps st' = caps st"
proof -
  have one: "\<And>a b. b \<in> set (m space a) \<Longrightarrow> caps b = caps a"
    by (auto simp: m_space split: list.splits if_splits)
  assume "st' \<in> set (m (many1 space) st)"
  then obtain st1 where "st1 \<in> set (m space st)" "st' \<in> set (star (m space) (length (rest st1)) st1)"
    unfolding many1_def by auto
  with one star_caps [of "m space", OF one] show ?thesis by metis
qed

section \<open>Properties of \<open>extractMerchant\<close>\<close>

lemma merchant_names_nonempty: "M \<in> set merchant_names \<Longrightarrow> M \<noteq> []"
  by (auto simp: merchant_names_def)

lemma merchant_names_ne: "merchant_names \<noteq> []"
  by (simp add: merchant_names_def)

lemma length_str [simp]: "length (str n) = length n"
  by (simp add: str_def)

lemma match_first_Some:
  assumes "match_first r s = Some mt"
  shows "\<exists>k \<le> length s. \<exists>st \<in> set (m r (state_at 0 None s k)).
           mt = \<lparr>whole = slice s k (pos st), groups = caps st\<rparr>"
proof -
  from assms obtain j st where sc: "scan r 0 None s = Some (j, st)"
    and mt: "mt = \<lparr>whole = slice s j (pos st), groups = caps st\<rparr>"
    by (auto simp: match_first_def split: option.splits)
  from scan_Some [OF sc] obtain k sts where "k \<le> length s" "j = k"
    "m r (state_at 0 None s k) = st # sts"
    by auto
  with mt show ?thesis by auto
qed

lemma match_first_None_iff:
  "match_first r s = None \<longleftrightarrow> (\<forall>k \<le> length s. m r (state_at 0 None s k) = [])"
proof -
  have "match_first r s = None \<longleftrightarrow> scan r 0 None s = None"
    by (simp add: match_first_def split: option.splits)
  then show ?thesis
    by (simp only: scan_None_iff)
qed

lemma in_set_nonempty: "x \<in> set xs \<Longrightarrow> xs \<noteq> []"
  by auto

lemma m_Seq_Bol: "m (Seq Bol r) st = (if pos st = 0 then m r st else [])"
  by simp

lemma in_m_Seq: "st'' \<in> set (m (Seq a b) st) \<longleftrightarrow> (\<exists>st' \<in> set (m a st). st'' \<in> set (m b st'))"
  by auto

lemma in_m_Eol: "st' \<in> set (m Eol st) \<longleftrightarrow> st' = st \<and> rest st = []"
  by auto

lemma whole_line_pattern:
  "st' \<in> set (m (seqs [Bol, Group 1 merchant_alt, Eol]) st) \<longleftrightarrow>
     pos st = 0 \<and> (\<exists>n \<in> set merchant_names. length n = length (rest st) \<and> ci_eq (rest st) (str n)
        \<and> st' = (advance (length n) st)\<lparr>caps := (1, rest st) # caps st\<rparr>)"
  (is "?L \<longleftrightarrow> ?R")
proof
  assume ?L
  then have p0: "pos st = 0" and "st' \<in> set (m (Seq (Group 1 merchant_alt) Eol) st)"
    unfolding seqs.simps m_Seq_Bol by (auto split: if_splits simp del: m.simps)
  then have g: "st' \<in> set (m (Group 1 merchant_alt) st)" and e: "rest st' = []"
    unfolding in_m_Seq in_m_Eol by auto
  from g obtain n where n: "n \<in> set merchant_names" "length n \<le> length (rest st)"
    "ci_eq (take (length n) (rest st)) (str n)"
    "st' = (advance (length n) st)\<lparr>caps := (1, take (length n) (rest st)) # caps st\<rparr>"
    unfolding merchant_alt_def in_m_group_alts [OF merchant_names_ne] by blast
  from e n(4) have "length (rest st) \<le> length n" by simp
  with n(2) have len: "length n = length (rest st)" by simp
  with n show ?R using p0 by auto
next
  assume ?R
  then obtain n where p0: "pos st = 0" and n: "n \<in> set merchant_names"
    "length n = length (rest st)" "ci_eq (rest st) (str n)"
    "st' = (advance (length n) st)\<lparr>caps := (1, rest st) # caps st\<rparr>"
    by blast
  have "st' \<in> set (m (Group 1 merchant_alt) st)"
    unfolding merchant_alt_def in_m_group_alts [OF merchant_names_ne]
    using n by (intro bexI [of _ n]) simp_all
  moreover have "rest st' = []" using n(2,4) by simp
  ultimately have "st' \<in> set (m (Seq (Group 1 merchant_alt) Eol) st)"
    unfolding in_m_Seq in_m_Eol by blast
  with p0 show ?L
    unfolding seqs.simps m_Seq_Bol by simp
qed

lemma followed_by_space_result:
  assumes "st' \<in> set (m (seqs [Group 1 merchant_alt, many1 space]) st)"
  shows "\<exists>n \<in> set merchant_names. \<exists>w after. length n \<le> length (rest st)
        \<and> ci_eq (take (length n) (rest st)) (str n)
        \<and> drop (length n) (rest st) = w # after \<and> is_space w
        \<and> caps st' = (1, take (length n) (rest st)) # caps st"
proof -
  from assms obtain st1 where st1: "st1 \<in> set (m (Group 1 merchant_alt) st)"
    and st': "st' \<in> set (m (many1 space) st1)"
    unfolding seqs.simps in_m_Seq by blast
  from st' have ne: "m (many1 space) st1 \<noteq> []" by (rule in_set_nonempty)
  from st1 obtain n where n: "n \<in> set merchant_names" "length n \<le> length (rest st)"
    "ci_eq (take (length n) (rest st)) (str n)"
    "st1 = (advance (length n) st)\<lparr>caps := (1, take (length n) (rest st)) # caps st\<rparr>"
    unfolding merchant_alt_def in_m_group_alts [OF merchant_names_ne] by blast
  from ne n(4) obtain w after where "drop (length n) (rest st) = w # after" "is_space w"
    unfolding m_many1_space_nonempty by auto
  moreover from m_many1_space_caps [OF st'] n(4)
  have "caps st' = (1, take (length n) (rest st)) # caps st" by simp
  ultimately show ?thesis using n(1-3) by blast
qed

lemma followed_by_space_found:
  assumes "n \<in> set merchant_names" "length n \<le> length (rest st)"
    "ci_eq (take (length n) (rest st)) (str n)" "drop (length n) (rest st) = w # after" "is_space w"
  shows "m (seqs [Group 1 merchant_alt, many1 space]) st \<noteq> []"
proof -
  let ?st1 = "(advance (length n) st)\<lparr>caps := (1, take (length n) (rest st)) # caps st\<rparr>"
  have st1: "?st1 \<in> set (m (Group 1 merchant_alt) st)"
    unfolding merchant_alt_def in_m_group_alts [OF merchant_names_ne]
    using assms(1-3) by blast
  have "m (many1 space) ?st1 \<noteq> []"
    unfolding m_many1_space_nonempty using assms(4,5) by simp
  then obtain st' where "st' \<in> set (m (many1 space) ?st1)"
    by (cases "m (many1 space) ?st1") auto
  with st1 have "st' \<in> set (m (seqs [Group 1 merchant_alt, many1 space]) st)"
    unfolding seqs.simps in_m_Seq by blast
  then show ?thesis by (rule in_set_nonempty)
qed


lemma state_at_fields [simp]:
  "pos (state_at i p cs k) = i + k" "rest (state_at i p cs k) = drop k cs" "caps (state_at i p cs k) = []"
  by (simp_all add: state_at_def)

lemma group_first: "group \<lparr>whole = w, groups = (n, g) # gs\<rparr> n = g"
  by (simp add: group_def)

lemma merchant_in_line_unfold:
  "merchant_in_line merchantPatterns line =
     (case match_first (seqs [Bol, Group 1 merchant_alt, Eol]) line of
        Some mt \<Rightarrow> Some (if group mt 1 \<noteq> [] then group mt 1 else whole mt)
      | None \<Rightarrow>
         (case match_first (seqs [Group 1 merchant_alt, many1 space]) line of
            Some mt \<Rightarrow> Some (if group mt 1 \<noteq> [] then group mt 1 else whole mt)
          | None \<Rightarrow> None))"
  by (simp add: merchantPatterns_def split: option.splits del: seqs.simps)

lemma whole_line_match:
  assumes "match_first (seqs [Bol, Group 1 merchant_alt, Eol]) line = Some mt"
  shows "group mt 1 = line \<and> line \<noteq> [] \<and> (\<exists>M \<in> set merchant_names. ci_eq line (str M))"
proof -
  from match_first_Some [OF assms] obtain k st where k: "k \<le> length line"
    and st: "st \<in> set (m (seqs [Bol, Group 1 merchant_alt, Eol]) (state_at 0 None line k))"
    and mt: "mt = \<lparr>whole = slice line k (pos st), groups = caps st\<rparr>"
    by blast
  from st obtain n where k0: "k = 0" and n: "n \<in> set merchant_names"
    "length n = length (drop k line)" "ci_eq (drop k line) (str n)"
    "caps st = [(1, drop k line)]"
    unfolding whole_line_pattern by auto
  from n(1) have "n \<noteq> []" by (rule merchant_names_nonempty)
  with n k0 mt show ?thesis by (auto simp: group_first)
qed

lemma followed_by_space_match:
  assumes "match_first (seqs [Group 1 merchant_alt, many1 space]) line = Some mt"
  shows "group mt 1 \<noteq> [] \<and> (\<exists>M \<in> set merchant_names. ci_eq (group mt 1) (str M))
     \<and> (\<exists>before w after. line = before @ group mt 1 @ w # after \<and> is_space w)"
proof -
  from match_first_Some [OF assms] obtain k st where k: "k \<le> length line"
    and st: "st \<in> set (m (seqs [Group 1 merchant_alt, many1 space]) (state_at 0 None line k))"
    and mt: "mt = \<lparr>whole = slice line k (pos st), groups = caps st\<rparr>"
    by blast
  from followed_by_space_result [OF st] obtain n w after where n: "n \<in> set merchant_names"
    "length n \<le> length (drop k line)" "ci_eq (take (length n) (drop k line)) (str n)"
    "drop (length n) (drop k line) = w # after" "is_space w"
    "caps st = [(1, take (length n) (drop k line))]"
    by auto
  let ?name = "take (length n) (drop k line)"
  from mt n(6) have g: "group mt 1 = ?name" by (simp add: group_first)
  from n(1) have "n \<noteq> []" by (rule merchant_names_nonempty)
  with n(2) have "?name \<noteq> []" by auto
  moreover have "line = take k line @ ?name @ w # after"
    using n(4) by (metis append_take_drop_id)
  ultimately show ?thesis
    using n(1,3,5) unfolding g by blast
qed

lemma merchant_in_line_Some:
  assumes "merchant_in_line merchantPatterns line = Some name"
  shows "merchant_hit line name \<and> name \<noteq> []"
proof (cases "match_first (seqs [Bol, Group 1 merchant_alt, Eol]) line")
  case (Some mt)
  from whole_line_match [OF Some] assms Some show ?thesis
    unfolding merchant_in_line_unfold merchant_hit_def by auto
next
  case None
  with assms obtain mt where mt: "match_first (seqs [Group 1 merchant_alt, many1 space]) line = Some mt"
    and name: "name = (if group mt 1 \<noteq> [] then group mt 1 else whole mt)"
    unfolding merchant_in_line_unfold by (auto split: option.splits)
  from followed_by_space_match [OF mt] name show ?thesis
    unfolding merchant_hit_def by auto
qed

lemma merchant_in_line_None:
  assumes "merchant_in_line merchantPatterns line = None"
  shows "\<not> merchant_hit line name"
proof
  assume "merchant_hit line name"
  then obtain M where M: "M \<in> set merchant_names" "ci_eq name (str M)"
    and shape: "line = name \<or> (\<exists>before w after. line = before @ name @ w # after \<and> is_space w)"
    unfolding merchant_hit_def by blast
  from assms have none1: "match_first (seqs [Bol, Group 1 merchant_alt, Eol]) line = None"
    and none2: "match_first (seqs [Group 1 merchant_alt, many1 space]) line = None"
    unfolding merchant_in_line_unfold by (auto split: option.splits)
  from M(2) have len: "length name = length M" using ci_eq_length by fastforce
  from shape show False
  proof
    assume whole: "line = name"
    have "(advance (length M) (state_at 0 None line 0))\<lparr>caps := (1, rest (state_at 0 None line 0))
            # caps (state_at 0 None line 0)\<rparr>
          \<in> set (m (seqs [Bol, Group 1 merchant_alt, Eol]) (state_at 0 None line 0))"
      unfolding whole_line_pattern using M whole len by (intro conjI bexI [of _ M]) simp_all
    moreover from none1 have "m (seqs [Bol, Group 1 merchant_alt, Eol]) (state_at 0 None line 0) = []"
      unfolding match_first_None_iff by blast
    ultimately show False by (blast dest: in_set_nonempty)
  next
    assume "\<exists>before w after. line = before @ name @ w # after \<and> is_space w"
    then obtain before w after where line: "line = before @ name @ w # after" and w: "is_space w"
      by blast
    let ?st = "state_at 0 None line (length before)"
    have "m (seqs [Group 1 merchant_alt, many1 space]) ?st \<noteq> []"
    proof (rule followed_by_space_found [OF M(1) _ _ _ w])
      show "length M \<le> length (rest ?st)" using line len by simp
      show "ci_eq (take (length M) (rest ?st)) (str M)" using line len M(2) by simp
      show "drop (length M) (rest ?st) = w # after" using line len by simp
    qed
    moreover have "length before \<le> length line"
      using line by simp
    with none2 have "m (seqs [Group 1 merchant_alt, many1 space]) ?st = []"
      unfolding match_first_None_iff by blast
    ultimately show False by blast
  qed
qed


lemma merchant_hit_iff:
  "(\<exists>name. merchant_hit line name) \<longleftrightarrow> merchant_in_line merchantPatterns line \<noteq> None"
  using merchant_in_line_Some [of line] merchant_in_line_None [of line]
  by (cases "merchant_in_line merchantPatterns line") auto

lemma known_merchant_find:
  "known_merchant lines =
     (case find (\<lambda>line. \<exists>name. merchant_hit line name) lines of
        None \<Rightarrow> None
      | Some line \<Rightarrow> merchant_in_line merchantPatterns line)"
  unfolding merchant_hit_iff
  by (induction lines) (auto split: option.splits)

lemma m_Chars_nonempty: "m (Chars P) st \<noteq> [] \<longleftrightarrow> (\<exists>c cs. rest st = c # cs \<and> P c)"
  by (cases "rest st") auto

lemma letter_test: "re_test (Chars P) line \<longleftrightarrow> (\<exists>c \<in> set line. P c)"
proof -
  have "re_test (Chars P) line \<longleftrightarrow> (\<exists>k \<le> length line. m (Chars P) (state_at 0 None line k) \<noteq> [])"
    unfolding re_test_def match_first_None_iff by blast
  also have "\<dots> \<longleftrightarrow> (\<exists>k \<le> length line. \<exists>c cs. drop k line = c # cs \<and> P c)"
    by (simp only: m_Chars_nonempty state_at_fields)
  also have "\<dots> \<longleftrightarrow> (\<exists>c \<in> set line. P c)"
  proof
    assume "\<exists>k \<le> length line. \<exists>c cs. drop k line = c # cs \<and> P c"
    then obtain k c cs where "drop k line = c # cs" "P c" by blast
    then have "c \<in> set (drop k line)" by simp
    with \<open>P c\<close> show "\<exists>c \<in> set line. P c" by (blast dest: in_set_dropD)
  next
    assume "\<exists>c \<in> set line. P c"
    then obtain c where "c \<in> set line" "P c" by blast
    then obtain xs ys where "line = xs @ c # ys" by (auto simp: in_set_conv_decomp)
    then have "length xs \<le> length line" "drop (length xs) line = c # ys" by simp_all
    with \<open>P c\<close> show "\<exists>k \<le> length line. \<exists>c cs. drop k line = c # cs \<and> P c" by blast
  qed
  finally show ?thesis .
qed

lemma shortest_first:
  assumes "sort_key f xs = y # ys"
  shows "y \<in> set xs \<and> (\<forall>x \<in> set xs. f y \<le> f x)"
proof -
  have "sorted (map f (y # ys))" using sorted_sort_key [of f xs] assms by simp
  moreover have "set (y # ys) = set xs" using set_sort [of f xs] assms by simp
  ultimately show ?thesis by auto
qed

lemma extractMerchant_known:
  "find (\<lambda>line. \<exists>name. merchant_hit line name) lines = Some line \<longrightarrow>
     merchant_hit line (extractMerchant lines) \<and> extractMerchant lines \<noteq> []"
proof
  assume f: "find (\<lambda>line. \<exists>name. merchant_hit line name) lines = Some line"
  then have "\<exists>name. merchant_hit line name" by (auto simp: find_Some_iff)
  then obtain name where name: "merchant_in_line merchantPatterns line = Some name"
    unfolding merchant_hit_iff by blast
  with f have "extractMerchant lines = name"
    by (simp add: extractMerchant_def known_merchant_find)
  with merchant_in_line_Some [OF name]
  show "merchant_hit line (extractMerchant lines) \<and> extractMerchant lines \<noteq> []" by simp
qed

lemma extractMerchant_shortest:
  "find (\<lambda>line. \<exists>name. merchant_hit line name) lines = None \<and> filter is_candidate lines \<noteq> [] \<longrightarrow>
     extractMerchant lines \<in> set lines \<and> is_candidate (extractMerchant lines)
     \<and> (\<forall>c \<in> set lines. is_candidate c \<longrightarrow> length (extractMerchant lines) \<le> length c)"
proof (intro impI, elim conjE)
  assume f: "find (\<lambda>line. \<exists>name. merchant_hit line name) lines = None"
    and ne: "filter is_candidate lines \<noteq> []"
  from ne have "sort_key length (filter is_candidate lines) \<noteq> []"
    by (metis length_0_conv length_sort)
  then obtain y ys where y: "sort_key length (filter is_candidate lines) = y # ys"
    by (cases "sort_key length (filter is_candidate lines)") auto
  with f have "extractMerchant lines = y"
    by (simp add: extractMerchant_def known_merchant_find)
  with shortest_first [OF y]
  show "extractMerchant lines \<in> set lines \<and> is_candidate (extractMerchant lines)
     \<and> (\<forall>c \<in> set lines. is_candidate c \<longrightarrow> length (extractMerchant lines) \<le> length c)"
    by auto
qed

lemma extractMerchant_unknown:
  "find (\<lambda>line. \<exists>name. merchant_hit line name) lines = None \<and> filter is_candidate lines = [] \<longrightarrow>
     extractMerchant lines = str ''Unknown Merchant''"
  by (simp add: extractMerchant_def known_merchant_find)

lemma is_candidate_iff:
  "is_candidate line \<longleftrightarrow>
     2 < length line \<and> length line < 50 \<and> (\<exists>c \<in> set line. is_letter c)
     \<and> (\<forall>w \<in> set excluded_words. \<not> sublist (str w) (toLowerCase line))
     \<and> \<not> re_test numeric_line_re line \<and> \<not> re_test price_re line
     \<and> \<not> sublist (str ''866-'') line \<and> \<not> sublist (str ''phone'') line"
  by (simp add: is_candidate_def Let_def letter_test includes_str_def list_ex_iff)

lemma merchant_names_list:
  "merchant_names = [''Amazon'', ''Walmart'', ''Costco'', ''Target'', ''Starbucks'', ''McDonald'',
     ''Tim Hortons'', ''Uber'', ''Lyft'', ''Netflix'', ''Spotify'', ''Apple'', ''Google'',
     ''Microsoft'', ''PayPal'']"
  by (simp add: merchant_names_def)

text \<open>
  A listed name inside a word of a line. The second pattern, \<open>/(Amazon|...|PayPal)\s+/i\<close>,
  has no anchor, under the comment \<open>Merchant names followed by location or details\<close>.
\<close>

lemma pineapple_result: "extractMerchant [str ''Pineapple Juice''] = str ''apple''"
  by code_simp

lemma pineapple_candidate: "is_candidate (str ''Pineapple Juice'')"
  by code_simp

lemma pineapple_no_prefix:
  "list_all (\<lambda>M. \<not> ci_eq (take (length M) (str ''Pineapple Juice'')) (str M)) merchant_names"
  by code_simp

text \<open>
  C6. The line \<open>Pineapple Juice\<close> neither is a listed merchant name nor starts with one,
  and it is a candidate line; yet the result is \<open>apple\<close>, the text found inside
  \<open>Pineapple\<close> under the name \<open>Apple\<close> before the blank, and not the line itself.
\<close>

theorem extractMerchant_name_inside_word:
  "extractMerchant [str ''Pineapple Juice''] = str ''apple''
   \<and> is_candidate (str ''Pineapple Juice'')
   \<and> list_all (\<lambda>M. \<not> ci_eq (take (length M) (str ''Pineapple Juice'')) (str M)) merchant_names"
  using pineapple_result pineapple_candidate pineapple_no_prefix by blast

section \<open>Properties of \<open>parseReceiptText\<close>\<close>

lemma extractAmount_not_negative: "0 \<le> extractAmount ocr lines"
proof (cases "currency_amounts ocr = []")
  case False
  with extractAmount_currency [of ocr lines] have "0 < extractAmount ocr lines" by blast
  then show ?thesis by (rule less_imp_le)
next
  case no_currency: True
  show ?thesis
  proof (cases "find (\<lambda>line. is_total_line line \<and> 0 < extractNumberFromLine line) lines")
    case (Some line)
    with no_currency extractAmount_total_line [of ocr lines line]
    have "extractAmount ocr lines = extractNumberFromLine line" "0 < extractNumberFromLine line"
      by blast+
    then show ?thesis by (simp add: less_imp_le)
  next
    case no_total: None
    show ?thesis
    proof (cases "filter (\<lambda>n. 0 < n \<and> n < Finite 100000) (extractAllNumbers ocr) = []")
      case True
      with no_currency no_total extractAmount_nothing [of ocr lines]
      have "extractAmount ocr lines = 0" by blast
      then show ?thesis by simp
    next
      case False
      let ?reasonable = "filter (\<lambda>n. 0 < n \<and> n < Finite 100000) (extractAllNumbers ocr)"
      from False have "set ?reasonable \<noteq> {}"
        by (simp only: set_empty not_False_eq_True)
      then have "Max (set ?reasonable) \<in> set ?reasonable"
        by (intro Max_in) (rule finite_set)
      then have "0 < Max (set ?reasonable)" by simp
      moreover from no_currency no_total False
      have "extractAmount ocr lines = Max (set ?reasonable)"
        by (simp add: extractAmount_def total_line_amount_find math_max_Max Let_def)
      ultimately show ?thesis by (simp add: less_imp_le)
    qed
  qed
qed

lemma extractMerchant_nonempty: "extractMerchant lines \<noteq> []"
proof (cases "find (\<lambda>line. \<exists>name. merchant_hit line name) lines")
  case (Some line)
  then show ?thesis using extractMerchant_known [of lines line] by simp
next
  case None
  show ?thesis
  proof (cases "filter is_candidate lines = []")
    case True
    with None have "extractMerchant lines = str ''Unknown Merchant''"
      using extractMerchant_unknown [of lines] by simp
    then show ?thesis by (simp add: str_def)
  next
    case False
    with None have "is_candidate (extractMerchant lines)"
      using extractMerchant_shortest [of lines] by simp
    then have "2 < length (extractMerchant lines)"
      by (simp add: is_candidate_iff)
    then show ?thesis by auto
  qed
qed

lemma extractType_iff:
  "extractType text = (if \<exists>k \<in> set creditIndicators. sublist (str k) (toLowerCase text) then Credit else Debit)"
  by (simp add: extractType_def any_keyword_iff)

lemma unknown_merchant_uncategorized:
  "categorizeTransaction (str ''Unknown Merchant'') Debit = str ''Uncategorized''"
  by code_simp

lemma parseReceiptText_fields:
  "pt_date (parseReceiptText Date_iso today ocrText) = extractDate Date_iso today ocrText"
  "pt_description (parseReceiptText Date_iso today ocrText) = extractMerchant (receipt_lines ocrText)"
  "pt_amount (parseReceiptText Date_iso today ocrText) = extractAmount ocrText (receipt_lines ocrText)"
  "pt_type (parseReceiptText Date_iso today ocrText) = extractType ocrText"
  by (simp_all add: parseReceiptText_def Let_def)

lemma parseReceiptText_defaults:
  "date_from_patterns Date_iso datePatterns ocrText = None
   \<and> currency_amounts ocrText = []
   \<and> find (\<lambda>line. is_total_line line \<and> 0 < extractNumberFromLine line) (receipt_lines ocrText) = None
   \<and> filter (\<lambda>n. 0 < n \<and> n < Finite 100000) (extractAllNumbers ocrText) = []
   \<and> find (\<lambda>line. \<exists>name. merchant_hit line name) (receipt_lines ocrText) = None
   \<and> filter is_candidate (receipt_lines ocrText) = []
   \<and> \<not> (\<exists>k \<in> set creditIndicators. sublist (str k) (toLowerCase ocrText)) \<longrightarrow>
   parseReceiptText Date_iso today ocrText =
     \<lparr>pt_date = today, pt_description = str ''Unknown Merchant'', pt_amount = 0, pt_type = Debit\<rparr>
   \<and> categorizeTransaction (pt_description (parseReceiptText Date_iso today ocrText))
        (pt_type (parseReceiptText Date_iso today ocrText)) = str ''Uncategorized''"
proof (intro impI, elim conjE)
  assume no_date: "date_from_patterns Date_iso datePatterns ocrText = None"
    and no_amount: "currency_amounts ocrText = []"
      "find (\<lambda>line. is_total_line line \<and> 0 < extractNumberFromLine line) (receipt_lines ocrText) = None"
      "filter (\<lambda>n. 0 < n \<and> n < Finite 100000) (extractAllNumbers ocrText) = []"
    and no_merchant: "find (\<lambda>line. \<exists>name. merchant_hit line name) (receipt_lines ocrText) = None"
      "filter is_candidate (receipt_lines ocrText) = []"
    and no_credit: "\<not> (\<exists>k \<in> set creditIndicators. sublist (str k) (toLowerCase ocrText))"
  from no_date have d: "extractDate Date_iso today ocrText = today"
    by (simp add: extractDate_def)
  from no_amount have a: "extractAmount ocrText (receipt_lines ocrText) = 0"
    using extractAmount_nothing [of ocrText "receipt_lines ocrText"] by simp
  from no_merchant have n: "extractMerchant (receipt_lines ocrText) = str ''Unknown Merchant''"
    using extractMerchant_unknown [of "receipt_lines ocrText"] by simp
  from no_credit have t: "extractType ocrText = Debit"
    by (simp add: extractType_iff)
  have eq: "parseReceiptText Date_iso today ocrText =
     \<lparr>pt_date = today, pt_description = str ''Unknown Merchant'', pt_amount = 0, pt_type = Debit\<rparr>"
    unfolding parseReceiptText_def Let_def d a n t ..
  show "parseReceiptText Date_iso today ocrText =
     \<lparr>pt_date = today, pt_description = str ''Unknown Merchant'', pt_amount = 0, pt_type = Debit\<rparr>
   \<and> categorizeTransaction (pt_description (parseReceiptText Date_iso today ocrText))
        (pt_type (parseReceiptText Date_iso today ocrText)) = str ''Uncategorized''"
    unfolding eq by (simp add: unknown_merchant_uncategorized)
qed

text \<open>
  C9 (amended). \<open>parseReceiptText\<close> is a total function of the text. Its amount is never
  negative; its type is \<open>Credit\<close> exactly when the lower-cased text contains one of the
  credit keywords, \<open>Debit\<close> otherwise; its description is never empty. When no date pattern
  yields a date, no amount is found by any of the three stages, no line names a known
  merchant or is a candidate, and the text holds no credit keyword, the result is
  \<open>{date: today, description: "Unknown Merchant", amount: 0, type: "debit"}\<close>, which the
  categorizer maps to \<open>Uncategorized\<close>.
\<close>

theorem parseReceiptText_total_with_defaults:
  "0 \<le> pt_amount (parseReceiptText Date_iso today ocrText)
   \<and> pt_type (parseReceiptText Date_iso today ocrText) =
       (if \<exists>k \<in> set creditIndicators. sublist (str k) (toLowerCase ocrText) then Credit else Debit)
   \<and> pt_description (parseReceiptText Date_iso today ocrText) \<noteq> []
   \<and> (date_from_patterns Date_iso datePatterns ocrText = None
      \<and> currency_amounts ocrText = []
      \<and> find (\<lambda>line. is_total_line line \<and> 0 < extractNumberFromLine line) (receipt_lines ocrText) = None
      \<and> filter (\<lambda>n. 0 < n \<and> n < Finite 100000) (extractAllNumbers ocrText) = []
      \<and> find (\<lambda>line. \<exists>name. merchant_hit line name) (receipt_lines ocrText) = None
      \<and> filter is_candidate (receipt_lines ocrText) = []
      \<and> \<not> (\<exists>k \<in> set creditIndicators. sublist (str k) (toLowerCase ocrText)) \<longrightarrow>
      parseReceiptText Date_iso today ocrText =
        \<lparr>pt_date = today, pt_description = str ''Unknown Merchant'', pt_amount = 0, pt_type = Debit\<rparr>
      \<and> categorizeTransaction (pt_description (parseReceiptText Date_iso today ocrText))
           (pt_type (parseReceiptText Date_iso today ocrText)) = str ''Uncategorized'')"
  unfolding parseReceiptText_fields
  by (intro conjI) (rule extractAmount_not_negative extractType_iff extractMerchant_nonempty
        parseReceiptText_defaults [unfolded parseReceiptText_fields])+

text \<open>The text \<open>***\<close> has nothing to detect.\<close>

lemma stars_no_date: "date_from_patterns (\<lambda>s. None) datePatterns (str ''***'') = None"
  by code_simp

lemma stars_no_currency: "currency_amounts (str ''***'') = []"
  by code_simp

lemma stars_no_total:
  "find (\<lambda>line. is_total_line line \<and> 0 < extractNumberFromLine line) (receipt_lines (str ''***'')) = None"
  by code_simp

lemma stars_no_number:
  "filter (\<lambda>n. 0 < n \<and> n < Finite 100000) (extractAllNumbers (str ''***'')) = []"
  by code_simp

lemma stars_no_known_merchant:
  "find (\<lambda>line. \<exists>name. merchant_hit line name) (receipt_lines (str ''***'')) = None"
  unfolding merchant_hit_iff by code_simp

lemma stars_no_candidate: "filter is_candidate (receipt_lines (str ''***'')) = []"
  by code_simp

lemma stars_no_credit:
  "\<not> (\<exists>k \<in> set creditIndicators. sublist (str k) (toLowerCase (str ''***'')))"
  unfolding any_keyword_iff [symmetric] by code_simp

theorem parseReceiptText_nothing_detected_witness:
  "parseReceiptText (\<lambda>s. None) (str ''2025-09-19'') (str ''***'') =
     \<lparr>pt_date = str ''2025-09-19'', pt_description = str ''Unknown Merchant'', pt_amount = 0,
      pt_type = Debit\<rparr>
   \<and> categorizeTransaction (pt_description (parseReceiptText (\<lambda>s. None) (str ''2025-09-19'') (str ''***'')))
        (pt_type (parseReceiptText (\<lambda>s. None) (str ''2025-09-19'') (str ''***''))) = str ''Uncategorized''"
  using parseReceiptText_total_with_defaults [of "\<lambda>s. None" "str ''2025-09-19''" "str ''***''",
      THEN conjunct2, THEN conjunct2, THEN conjunct2, THEN mp]
    stars_no_date stars_no_currency stars_no_total stars_no_number stars_no_known_merchant
    stars_no_candidate stars_no_credit
  by blast

text \<open>
  A text without amount, date or merchant, but with a credit keyword: \<open>card number\<close> is one
  of the excluded words, so the line is no candidate, and \<open>credit\<close> makes the type
  \<open>Credit\<close>.
\<close>

theorem parseReceiptText_credit_keyword_counterexample:
  "\<forall>Date_iso today. parseReceiptText Date_iso today (str ''credit card number'') =
     \<lparr>pt_date = today, pt_description = str ''Unknown Merchant'', pt_amount = 0, pt_type = Credit\<rparr>"
  by (intro allI) code_simp

end
